theory Spec2Isabelle
  imports Complex_Main
begin

section \<open>Python values\<close>

text \<open>
  The script \<^verbatim>\<open>upload_to_harpin.py\<close> only handles values that come out of
  \<^verbatim>\<open>response.json()\<close>: \<^verbatim>\<open>None\<close>, booleans, numbers, strings, lists and
  dictionaries. A dictionary is the association list of its items, looked up with
  \<open>map_of\<close>. JSON numbers are integers here; a fractional number is outside the model.
\<close>

datatype pyval = PNone | PBool bool | PInt int | PStr string
  | PList "pyval list" | PDict "(string \<times> pyval) list"

lemma size_in_list: "x \<in> set xs \<Longrightarrow> size x < Suc (size_list size xs)"
  by (induction xs) auto

lemma size_in_dict:
  "(k, x) \<in> set xs \<Longrightarrow> size x < Suc (size_list (size_prod (\<lambda>_. 0) size) xs)"
  by (induction xs) auto

text \<open>
  Python's \<^verbatim>\<open>==\<close> on these values: \<^verbatim>\<open>True == 1\<close> and \<^verbatim>\<open>False == 0\<close> hold, lists
  are compared element by element, dictionaries key by key whatever the order of the items.
\<close>

function py_eq :: "pyval \<Rightarrow> pyval \<Rightarrow> bool" where
  "py_eq PNone b = (b = PNone)"
| "py_eq (PBool x) b =
     (case b of PBool y \<Rightarrow> x = y | PInt j \<Rightarrow> of_bool x = j | _ \<Rightarrow> False)"
| "py_eq (PInt i) b =
     (case b of PBool y \<Rightarrow> i = of_bool y | PInt j \<Rightarrow> i = j | _ \<Rightarrow> False)"
| "py_eq (PStr s) b = (b = PStr s)"
| "py_eq (PList xs) b =
     (case b of
        PList ys \<Rightarrow> length xs = length ys \<and> (\<forall>(x, y) \<in> set (zip xs ys). py_eq x y)
      | _ \<Rightarrow> False)"
| "py_eq (PDict xs) b =
     (case b of
        PDict ys \<Rightarrow> set (map fst xs) = set (map fst ys) \<and>
          (\<forall>(k, x) \<in> set xs. map_of xs k = Some x \<longrightarrow>
             (case map_of ys k of Some y \<Rightarrow> py_eq x y | None \<Rightarrow> False))
      | _ \<Rightarrow> False)"
  by pat_completeness auto
termination
  apply (relation "measure (\<lambda>(a, b). size a)")
    apply simp
  subgoal for xs b ys z x y
    using size_in_list [of x xs] set_zip_leftD [of x y xs ys] by auto
  subgoal for xs b ys z k x
    using size_in_dict [of k x xs] by auto
  done

text \<open>Truthiness, as \<^verbatim>\<open>if value:\<close> and \<^verbatim>\<open>not value\<close> test it.\<close>

fun py_truthy :: "pyval \<Rightarrow> bool" where
  "py_truthy PNone = False"
| "py_truthy (PBool b) = b"
| "py_truthy (PInt i) = (i \<noteq> 0)"
| "py_truthy (PStr s) = (s \<noteq> [])"
| "py_truthy (PList xs) = (xs \<noteq> [])"
| "py_truthy (PDict d) = (d \<noteq> [])"

text \<open>\<^verbatim>\<open>d.get(key, default)\<close> on a dictionary.\<close>

definition dict_get :: "(string \<times> pyval) list \<Rightarrow> string \<Rightarrow> pyval \<Rightarrow> pyval" where
  "dict_get d key dflt = (case map_of d key of Some v \<Rightarrow> v | None \<Rightarrow> dflt)"

section \<open>Size formatting\<close>

text \<open>
  \<^verbatim>\<open>format_file_size\<close> returns the text \<^verbatim>\<open>f"{size_bytes:.2f} {unit}"\<close>; the model keeps
  its two interpolated fields, the number and the unit. The number is the exact quotient:
  dividing a float by 1024.0 is exact, and a size below \<open>2 ^ 53\<close> converts to a float
  without rounding, so the comparisons with 1024.0 are the exact ones.
\<close>

type_synonym size_text = "real \<times> string"

fun format_loop :: "string list \<Rightarrow> real \<Rightarrow> size_text" where
  "format_loop [] size_bytes = (size_bytes, ''TB'')"
| "format_loop (unit # units) size_bytes =
     (if size_bytes < 1024 then (size_bytes, unit)
      else format_loop units (size_bytes / 1024))"

definition format_file_size :: "int \<Rightarrow> size_text" where
  "format_file_size size_bytes =
     format_loop [''B'', ''KB'', ''MB'', ''GB''] (real_of_int size_bytes)"

text \<open>The units in growing order of magnitude, and the position of a unit among them.\<close>

definition size_units :: "string list" where
  "size_units = [''B'', ''KB'', ''MB'', ''GB'', ''TB'']"

definition unit_rank :: "string \<Rightarrow> nat" where
  "unit_rank u = length (takeWhile (\<lambda>x. x \<noteq> u) size_units)"

section \<open>Outcomes, messages and the world\<close>

text \<open>
  A call of one of the script's functions returns a value, leaves the process through
  \<^verbatim>\<open>sys.exit(code)\<close>, or raises an exception. \<^verbatim>\<open>SystemExit\<close> is not an
  \<^verbatim>\<open>Exception\<close>, so no handler of the script catches it: \<open>Exit\<close> passes through every
  \<^verbatim>\<open>try\<close>. \<open>RequestException e\<close> is an exception of the \<^verbatim>\<open>requests\<close> library
  with \<^verbatim>\<open>str(e) = e\<close>; \<open>AttributeError\<close> is what \<^verbatim>\<open>.get\<close> raises on a value that is
  not a dictionary, \<open>TypeError\<close> what iterating a value that is not iterable raises, and
  \<open>OSError\<close> what \<^verbatim>\<open>open\<close> raises.
\<close>

datatype exc = RequestException string | AttributeError | TypeError | OSError

datatype 'a outcome = Returned 'a | Exit int | Raised exc

text \<open>
  A formatted string is the list of its pieces: literal text and interpolated fields. An
  interpolated field keeps the value instead of its rendering.
\<close>

datatype frag =
    Lit string          \<comment> \<open>literal text, or an interpolated \<^verbatim>\<open>str\<close>\<close>
  | Val pyval           \<comment> \<open>\<^verbatim>\<open>{value}\<close> of a value read from a response\<close>
  | Num int             \<comment> \<open>\<^verbatim>\<open>{n}\<close> of an integer\<close>
  | SizeText size_text  \<comment> \<open>\<^verbatim>\<open>{format_file_size(n)}\<close>\<close>
  | Dumps pyval         \<comment> \<open>\<^verbatim>\<open>{json.dumps(value, indent=2)}\<close>\<close>
  | RawText pyval       \<comment> \<open>\<^verbatim>\<open>{response.text}\<close> of a response with this JSON body\<close>
  | TypeName pyval      \<comment> \<open>\<^verbatim>\<open>{type(value).__name__}\<close>\<close>
  | ExcText exc         \<comment> \<open>\<^verbatim>\<open>{str(e)}\<close> of an exception caught at top level\<close>
  | Elapsed             \<comment> \<open>\<^verbatim>\<open>{time.time() - start:.1f}\<close>\<close>

type_synonym fstring = "frag list"

definition apostrophe :: frag where
  "apostrophe = Lit [CHR 0x27]"

datatype level = Plain | Info | Success | Error | Progress

type_synonym logline = "level \<times> fstring"

text \<open>
  One HTTP call of the \<^verbatim>\<open>requests\<close> library: method, URL, headers, body and timeout in
  seconds. The call either raises a \<open>RequestException\<close> (\<open>Failure\<close>, with the text of
  the exception) or returns a response (\<open>Response\<close>, with its status code and the value
  its \<^verbatim>\<open>json()\<close> gives). Every response body is taken to be a JSON document.
\<close>

datatype payload = NoBody | JsonBody pyval | FileBody string

record request =
  verb :: string
  url :: fstring
  headers :: "(string \<times> fstring) list"
  body :: payload
  timeout :: nat

datatype reply = Response int pyval | Failure string

record file_stat =
  is_file :: bool
  readable :: bool
  st_size :: int

text \<open>
  The world of one run: the process environment, the file system, the replies the network
  gives to the first, second, ... HTTP call of the run, and what the run has done so far:
  the calls it has made, the lines it has printed, the seconds it has slept.
\<close>

record world =
  environ :: "string \<Rightarrow> string option"
  files :: "string \<Rightarrow> file_stat option"
  net :: "nat \<Rightarrow> reply"
  sent :: "request list"
  out :: "logline list"
  slept :: "nat list"

type_synonym 'a op = "world \<Rightarrow> 'a outcome \<times> world"

definition emit :: "level \<Rightarrow> fstring \<Rightarrow> world \<Rightarrow> world" where
  "emit l message w = w\<lparr>out := out w @ [(l, message)]\<rparr>"

definition log_info :: "fstring \<Rightarrow> world \<Rightarrow> world" where
  "log_info = emit Info"

definition log_success :: "fstring \<Rightarrow> world \<Rightarrow> world" where
  "log_success = emit Success"

definition log_error :: "fstring \<Rightarrow> world \<Rightarrow> world" where
  "log_error = emit Error"

definition log_progress :: "fstring \<Rightarrow> world \<Rightarrow> world" where
  "log_progress = emit Progress"

definition sleep :: "nat \<Rightarrow> world \<Rightarrow> world" where
  "sleep seconds w = w\<lparr>slept := slept w @ [seconds]\<rparr>"

definition send :: "request \<Rightarrow> world \<Rightarrow> reply \<times> world" where
  "send rq w = (net w (length (sent w)), w\<lparr>sent := sent w @ [rq]\<rparr>)"

section \<open>Configuration and constants\<close>

definition API_BASE_URL :: string where
  "API_BASE_URL = ''https://api.harpin.ai''"

definition MAX_CONCURRENT_UPLOADS :: nat where
  "MAX_CONCURRENT_UPLOADS = 3"

definition MAX_FILE_SIZE_GB :: int where
  "MAX_FILE_SIZE_GB = 5"

definition MAX_FILE_SIZE_BYTES :: int where
  "MAX_FILE_SIZE_BYTES = MAX_FILE_SIZE_GB * 1024 * 1024 * 1024"

definition RETRY_ATTEMPTS :: nat where
  "RETRY_ATTEMPTS = 3"

definition RETRY_DELAY_SECONDS :: nat where
  "RETRY_DELAY_SECONDS = 10"

definition POLL_INTERVAL_SECONDS :: nat where
  "POLL_INTERVAL_SECONDS = 5"

definition EXIT_SUCCESS :: int where
  "EXIT_SUCCESS = 0"

definition EXIT_USER_ERROR :: int where
  "EXIT_USER_ERROR = 1"

definition EXIT_SYSTEM_ERROR :: int where
  "EXIT_SYSTEM_ERROR = 2"

section \<open>The retry decorator\<close>

text \<open>
  \<^verbatim>\<open>retry_on_network_error(func)\<close>. The wrapped function is a function of the world that
  may not return at all (\<open>None\<close>): the decorator is also put around the polling loop. The
  loop runs over \<^verbatim>\<open>range(1, RETRY_ATTEMPTS + 1)\<close>; only a \<open>RequestException\<close> is caught,
  any other outcome of the function is the outcome of the wrapper. After the loop the last
  exception is raised (raising \<^verbatim>\<open>None\<close>, were the range empty, is a \<open>TypeError\<close>).
\<close>

text \<open>
  The handler of an attempt that is not the last one: two progress lines and the sleep.
\<close>

definition backoff :: "nat \<Rightarrow> string \<Rightarrow> world \<Rightarrow> world" where
  "backoff attempt e w =
     sleep RETRY_DELAY_SECONDS
       (log_progress [Lit ''Retrying in '', Num (int RETRY_DELAY_SECONDS), Lit '' seconds...'']
         (log_progress [Lit ''Network error (attempt '', Num (int attempt), Lit ''/'',
             Num (int RETRY_ATTEMPTS), Lit ''): '', Lit e] w))"

text \<open>The handler of the last attempt: one error line.\<close>

definition give_up :: "string \<Rightarrow> world \<Rightarrow> world" where
  "give_up e w =
     log_error [Lit ''Network error after '', Num (int RETRY_ATTEMPTS), Lit '' attempts: '',
         Lit e] w"

fun retry_loop ::
  "(world \<Rightarrow> ('a outcome \<times> world) option) \<Rightarrow> nat list \<Rightarrow> exc option \<Rightarrow> world
    \<Rightarrow> ('a outcome \<times> world) option" where
  "retry_loop func [] last_exception w =
     Some (case last_exception of None \<Rightarrow> Raised TypeError | Some e \<Rightarrow> Raised e, w)"
| "retry_loop func (attempt # attempts) last_exception w =
     (case func w of
        None \<Rightarrow> None
      | Some (r, w1) \<Rightarrow>
          (case r of
             Raised (RequestException e) \<Rightarrow>
               retry_loop func attempts (Some (RequestException e))
                 (if attempt < RETRY_ATTEMPTS then backoff attempt e w1 else give_up e w1)
           | _ \<Rightarrow> Some (r, w1)))"

definition retry_on_network_error ::
  "(world \<Rightarrow> ('a outcome \<times> world) option) \<Rightarrow> world \<Rightarrow> ('a outcome \<times> world) option" where
  "retry_on_network_error func w = retry_loop func [1..<RETRY_ATTEMPTS + 1] None w"

section \<open>Authentication\<close>

text \<open>
  \<^verbatim>\<open>str.strip()\<close> removes leading and trailing whitespace. A character is its code point
  below 256; the whitespace among them is tab to carriage return, the four separators
  \<open>0x1C\<close> to \<open>0x1F\<close>, the space, \<open>0x85\<close> and \<open>0xA0\<close>.
\<close>

definition py_isspace :: "char \<Rightarrow> bool" where
  "py_isspace c = (of_char c \<in> set ([9, 10, 11, 12, 13, 28, 29, 30, 31, 32, 133, 160] :: nat list))"

definition strip :: "string \<Rightarrow> string" where
  "strip s = rev (dropWhile py_isspace (rev (dropWhile py_isspace s)))"

definition environ_get :: "world \<Rightarrow> string \<Rightarrow> string \<Rightarrow> string" where
  "environ_get w name dflt = (case environ w name of Some v \<Rightarrow> v | None \<Rightarrow> dflt)"

definition token_request :: "string \<Rightarrow> string \<Rightarrow> request" where
  "token_request client_id refresh_token =
     \<lparr>verb = ''POST'', url = [Lit API_BASE_URL, Lit ''/token''],
      headers = [(''Content-Type'', [Lit ''application/json''])],
      body = JsonBody (PDict [(''clientId'', PStr client_id),
                              (''refreshToken'', PStr refresh_token)]),
      timeout = 30\<rparr>"

definition get_access_token :: "pyval op" where
  "get_access_token w =
     (let client_id = strip (environ_get w ''HARPIN_CLIENT_ID'' []);
          refresh_token = strip (environ_get w ''HARPIN_REFRESH_TOKEN'' []);
          missing_vars = (if client_id = [] then [''HARPIN_CLIENT_ID''] else [])
                       @ (if refresh_token = [] then [''HARPIN_REFRESH_TOKEN''] else [])
      in
      if missing_vars \<noteq> [] then
        (Exit EXIT_USER_ERROR,
         log_error [Lit ''\<newline>Please set these environment variables before running the script.'']
           (fold (\<lambda>var. log_error [Lit ''  - '', Lit var]) missing_vars
             (log_error [Lit ''Missing required environment variables:''] w)))
      else
        (case send (token_request client_id refresh_token)
                (log_progress [Lit ''Authenticating with harpin AI...''] w) of
           (Failure e, w1) \<Rightarrow>
             (Exit EXIT_USER_ERROR, log_error [Lit ''Authentication request failed: '', Lit e] w1)
         | (Response status_code data, w1) \<Rightarrow>
             if status_code = 200 then
               (case data of
                  PDict d \<Rightarrow>
                    (let access_token = dict_get d ''accessToken'' PNone in
                     if py_truthy access_token then
                       (Returned access_token, log_success [Lit ''Authentication successful''] w1)
                     else
                       (Exit EXIT_USER_ERROR,
                        log_error [Lit ''Authentication response missing access token''] w1))
                | _ \<Rightarrow> (Raised AttributeError, w1))
             else
               (Exit EXIT_USER_ERROR,
                log_error [Lit ''Error details: '', Dumps data]
                  (log_error [Lit ''Authentication failed with status '', Num status_code] w1))))"

section \<open>Validation\<close>

text \<open>
  \<^verbatim>\<open>Path(file_path).name\<close>: the last component of the path, where empty components and
  \<^verbatim>\<open>.\<close> components do not count; the empty string when there is none.
\<close>

fun split_path :: "string \<Rightarrow> string list" where
  "split_path [] = [[]]"
| "split_path (c # cs) =
     (if c = CHR ''/'' then [] # split_path cs
      else (case split_path cs of [] \<Rightarrow> [[c]] | p # ps \<Rightarrow> (c # p) # ps))"

definition path_name :: "string \<Rightarrow> string" where
  "path_name file_path =
     (case rev (filter (\<lambda>p. p \<noteq> [] \<and> p \<noteq> ''.'') (split_path file_path)) of
        [] \<Rightarrow> []
      | p # _ \<Rightarrow> p)"

text \<open>
  The file system is a table from paths to the facts \<^verbatim>\<open>validate_file\<close> asks for; a path
  that is not in the table does not exist.
\<close>

definition validate_file :: "string \<Rightarrow> (string \<times> int) op" where
  "validate_file file_path w =
     (let w1 = log_progress [Lit ''Validating file...''] w in
      case files w1 file_path of
        None \<Rightarrow> (Exit EXIT_USER_ERROR, log_error [Lit ''File not found: '', Lit file_path] w1)
      | Some st \<Rightarrow>
          if \<not> is_file st then
            (Exit EXIT_USER_ERROR, log_error [Lit ''Path is not a file: '', Lit file_path] w1)
          else if \<not> readable st then
            (Exit EXIT_USER_ERROR, log_error [Lit ''File is not readable: '', Lit file_path] w1)
          else
            (let file_size = st_size st in
             if file_size > MAX_FILE_SIZE_BYTES then
               (Exit EXIT_USER_ERROR,
                log_error [Lit ''File size ('', SizeText (format_file_size file_size),
                    Lit '') exceeds maximum allowed size ('', Num MAX_FILE_SIZE_GB, Lit '' GB)'']
                  w1)
             else
               (Returned (file_path, file_size),
                log_success [Lit ''File validated: '', Lit (path_name file_path), Lit '' ('',
                    SizeText (format_file_size file_size), Lit '')''] w1)))"

text \<open>The headers every authenticated call carries, and a call without a body.\<close>

definition auth_headers :: "pyval \<Rightarrow> (string \<times> fstring) list" where
  "auth_headers access_token =
     [(''Authorization'', [Lit ''Bearer '', Val access_token]),
      (''Content-Type'', [Lit ''application/json''])]"

definition api_request :: "string \<Rightarrow> fstring \<Rightarrow> pyval \<Rightarrow> payload \<Rightarrow> request" where
  "api_request m path access_token b =
     \<lparr>verb = m, url = Lit API_BASE_URL # path, headers = auth_headers access_token,
      body = b, timeout = 30\<rparr>"

text \<open>
  \<^verbatim>\<open>for x in value\<close>: the items of a list, the characters of a string, the keys of a
  dictionary; any other value is not iterable.
\<close>

fun py_iter :: "pyval \<Rightarrow> exc + pyval list" where
  "py_iter (PList xs) = Inr xs"
| "py_iter (PStr s) = Inr (map (\<lambda>c. PStr [c]) s)"
| "py_iter (PDict d) = Inr (map PStr (remdups (map fst d)))"
| "py_iter _ = Inl TypeError"

text \<open>
  The comprehension \<^verbatim>\<open>[s for s in sources if s.get('sourceSystem') == 'flatFile']\<close>: it
  raises at the first item that has no \<^verbatim>\<open>get\<close>.
\<close>

fun flat_file_filter :: "pyval list \<Rightarrow> exc + pyval list" where
  "flat_file_filter [] = Inr []"
| "flat_file_filter (s # sources) =
     (case s of
        PDict d \<Rightarrow>
          (case flat_file_filter sources of
             Inl e \<Rightarrow> Inl e
           | Inr rest \<Rightarrow>
               Inr (if py_eq (dict_get d ''sourceSystem'' PNone) (PStr ''flatFile'')
                    then s # rest else rest))
      | _ \<Rightarrow> Inl AttributeError)"

text \<open>The loop that prints the sources kept by the comprehension.\<close>

fun show_sources :: "pyval list \<Rightarrow> world \<Rightarrow> exc option \<times> world" where
  "show_sources [] w = (None, w)"
| "show_sources (source # sources) w =
     (case source of
        PDict d \<Rightarrow>
          show_sources sources
            (log_info [Lit ''ID: '', Val (dict_get d ''id'' (PStr ''N/A'')),
                Lit '', Name: '', Val (dict_get d ''name'' (PStr ''N/A''))] w)
      | _ \<Rightarrow> (Some AttributeError, w))"

definition list_sources :: "pyval \<Rightarrow> unit op" where
  "list_sources access_token w =
     (case send (api_request ''GET'' [Lit ''/sources''] access_token NoBody) w of
        (Failure e, w1) \<Rightarrow>
          (Returned (), log_error [Lit ''Failed to retrieve available sources: '', Lit e] w1)
      | (Response status_code sources_data, w1) \<Rightarrow>
          if status_code = 200 then
            (case sources_data of
               PDict d \<Rightarrow>
                 (case py_iter (dict_get d ''content'' (PList [])) of
                    Inl e \<Rightarrow> (Raised e, w1)
                  | Inr sources \<Rightarrow>
                      (case flat_file_filter sources of
                         Inl e \<Rightarrow> (Raised e, w1)
                       | Inr flat_file_sources \<Rightarrow>
                           if flat_file_sources \<noteq> [] then
                             (case show_sources flat_file_sources
                                     (log_info [Lit ''\<newline>Available flatFile sources:''] w1) of
                                (Some e, w2) \<Rightarrow> (Raised e, w2)
                              | (None, w2) \<Rightarrow> (Returned (), w2))
                           else
                             (Returned (), log_info [Lit ''No flatFile sources available''] w1)))
             | _ \<Rightarrow> (Raised AttributeError, w1))
          else
            (Returned (), log_error [Lit ''Failed to retrieve available sources''] w1))"

text \<open>
  \<^verbatim>\<open>validate_source\<close>. \<open>list_sources\<close> above is the inner \<^verbatim>\<open>try\<close> block of the 404
  branch with its handler; the \<^verbatim>\<open>sys.exit(EXIT_USER_ERROR)\<close> that follows the block is
  reached when the block ends normally.
\<close>

definition validate_source :: "string \<Rightarrow> pyval \<Rightarrow> bool op" where
  "validate_source source_id access_token w =
     (case send (api_request ''GET'' [Lit ''/sources/'', Lit source_id] access_token NoBody)
             (log_progress [Lit ''Validating source ID: '', Lit source_id, Lit ''...''] w) of
        (Failure e, w1) \<Rightarrow>
          (Exit EXIT_USER_ERROR, log_error [Lit ''Failed to validate source ID: '', Lit e] w1)
      | (Response status_code source_data, w1) \<Rightarrow>
          if status_code = 200 then
            (case source_data of
               PDict d \<Rightarrow>
                 (let source_system = dict_get d ''sourceSystem'' (PStr ''unknown'') in
                  if \<not> py_eq source_system (PStr ''flatFile'') then
                    (Exit EXIT_USER_ERROR,
                     log_error [Lit ''Invalid source type: sourceSystem is of type '', apostrophe,
                         Val source_system, apostrophe, Lit '', must be of type '', apostrophe,
                         Lit ''flatFile'', apostrophe] w1)
                  else
                    (Returned True,
                     log_success [Lit ''Source ID validated: '', Lit source_id] w1))
             | _ \<Rightarrow> (Raised AttributeError, w1))
          else if status_code = 404 then
            (case list_sources access_token
                    (log_info [Lit ''Fetching available sources...'']
                      (log_error [Lit ''Invalid source ID: '', Lit source_id] w1)) of
               (Returned _, w2) \<Rightarrow> (Exit EXIT_USER_ERROR, w2)
             | (Exit c, w2) \<Rightarrow> (Exit c, w2)
             | (Raised e, w2) \<Rightarrow> (Raised e, w2))
          else
            (Exit EXIT_USER_ERROR,
             log_error [Lit ''Failed to validate source ID (status '', Num status_code, Lit '')'']
               w1))"

section \<open>The concurrency gate\<close>

definition in_progress_statuses :: "string list" where
  "in_progress_statuses =
     [''created'', ''analysisInProgress'', ''analysisCompleted'', ''importRequested'',
      ''importInProgress'']"

text \<open>\<^verbatim>\<open>value in strings\<close> for a list of strings.\<close>

definition py_in :: "pyval \<Rightarrow> string list \<Rightarrow> bool" where
  "py_in v strings = list_ex (\<lambda>s. py_eq v (PStr s)) strings"

text \<open>The loop over the uploads, with the list \<^verbatim>\<open>in_progress\<close> it builds.\<close>

fun in_progress_loop :: "pyval list \<Rightarrow> pyval list \<Rightarrow> world \<Rightarrow> pyval list \<times> world" where
  "in_progress_loop [] in_progress w = (in_progress, w)"
| "in_progress_loop (u # uploads) in_progress w =
     (case u of
        PDict d \<Rightarrow>
          (let status = dict_get d ''status'' PNone in
           if py_in status in_progress_statuses
           then in_progress_loop uploads (in_progress @ [u]) w
           else in_progress_loop uploads in_progress w)
      | _ \<Rightarrow>
          in_progress_loop uploads in_progress
            (log_info [Lit ''Warning: Skipping non-dictionary upload item: '', TypeName u] w))"

definition count_in_progress :: "pyval \<Rightarrow> unit op" where
  "count_in_progress uploads w =
     (case py_iter uploads of
        Inl e \<Rightarrow> (Raised e, w)
      | Inr items \<Rightarrow>
          (case in_progress_loop items [] w of
             (in_progress, w1) \<Rightarrow>
               (let in_progress_count = length in_progress in
                if in_progress_count \<ge> MAX_CONCURRENT_UPLOADS then
                  (Exit EXIT_USER_ERROR,
                   log_info [Lit ''Please wait for existing uploads to complete before starting a new one'']
                     (log_error [Lit ''Currently '', Num (int in_progress_count),
                         Lit '' upload(s) in progress'']
                       (log_error [Lit ''Maximum concurrent uploads ('',
                           Num (int MAX_CONCURRENT_UPLOADS), Lit '') reached''] w1)))
                else
                  (Returned (),
                   log_success [Lit ''Concurrent uploads check passed ('',
                       Num (int in_progress_count), Lit ''/'', Num (int MAX_CONCURRENT_UPLOADS),
                       Lit '')''] w1))))"

text \<open>
  \<^verbatim>\<open>check_concurrent_uploads\<close>. \<open>count_in_progress\<close> above is the part of the 200 branch
  that starts at the comment \<^verbatim>\<open># Count in-progress uploads\<close>.
\<close>

definition check_concurrent_uploads :: "string \<Rightarrow> pyval \<Rightarrow> unit op" where
  "check_concurrent_uploads source_id access_token w =
     (case send (api_request ''GET'' [Lit ''/sources/'', Lit source_id, Lit ''/uploads'']
                   access_token NoBody)
             (log_progress [Lit ''Checking concurrent uploads...''] w) of
        (Failure e, w1) \<Rightarrow>
          (Exit EXIT_SYSTEM_ERROR,
           log_error [Lit ''Failed to check concurrent uploads: '', Lit e] w1)
      | (Response status_code uploads, w1) \<Rightarrow>
          if status_code = 200 then
            (case uploads of
               PDict d \<Rightarrow> count_in_progress (dict_get d ''content'' (PList [])) w1
             | PList _ \<Rightarrow> count_in_progress uploads w1
             | _ \<Rightarrow>
                 (Exit EXIT_SYSTEM_ERROR,
                  log_error [Lit ''Unexpected response format from uploads API: expected list or dict, got '',
                      TypeName uploads] w1))
          else
            (Exit EXIT_SYSTEM_ERROR,
             log_error [Lit ''Failed to check concurrent uploads (status '', Num status_code,
                 Lit '')''] w1))"

section \<open>The upload workflow\<close>

text \<open>
  Each of the four functions below is decorated with \<^verbatim>\<open>@retry_on_network_error\<close>: the
  function as written is \<open>f_body\<close>, the decorated function the script calls is \<open>f\<close>. A
  \<open>RequestException\<close> raised by the HTTP call is not handled in the body.
\<close>

definition create_upload_body :: "string \<Rightarrow> string \<Rightarrow> pyval \<Rightarrow> (pyval \<times> pyval) op" where
  "create_upload_body source_id file_name access_token w =
     (case send (api_request ''POST'' [Lit ''/sources/'', Lit source_id, Lit ''/uploads'']
                   access_token (JsonBody (PDict [(''fileName'', PStr file_name)])))
             (log_progress [Lit ''Creating upload...''] w) of
        (Failure e, w1) \<Rightarrow> (Raised (RequestException e), w1)
      | (Response status_code data, w1) \<Rightarrow>
          if status_code \<in> {200, 201} then
            (case data of
               PDict d \<Rightarrow>
                 (let upload_id = dict_get d ''id'' PNone;
                      presigned_url = dict_get d ''url'' PNone
                  in
                  if \<not> py_truthy upload_id \<or> \<not> py_truthy presigned_url then
                    (Exit EXIT_SYSTEM_ERROR,
                     log_error [Lit ''Create upload response missing required fields''] w1)
                  else
                    (Returned (upload_id, presigned_url),
                     log_success [Lit ''Upload created: '', Val upload_id] w1))
             | _ \<Rightarrow> (Raised AttributeError, w1))
          else
            (Exit EXIT_SYSTEM_ERROR,
             log_error [Lit ''Error details: '', Dumps data]
               (log_error [Lit ''Failed to create upload (status '', Num status_code, Lit '')'']
                 w1)))"

definition create_upload ::
  "string \<Rightarrow> string \<Rightarrow> pyval \<Rightarrow> world \<Rightarrow> ((pyval \<times> pyval) outcome \<times> world) option" where
  "create_upload source_id file_name access_token =
     retry_on_network_error (\<lambda>w. Some (create_upload_body source_id file_name access_token w))"

text \<open>
  \<^verbatim>\<open>upload_to_s3\<close>. Opening the file fails unless it is a readable regular file. The
  progress bar only draws on the terminal and is left out.
\<close>

definition upload_to_s3_body :: "pyval \<Rightarrow> string \<Rightarrow> int \<Rightarrow> unit op" where
  "upload_to_s3_body presigned_url file_path file_size w =
     (let w1 = log_progress [Lit ''Uploading '', Lit (path_name file_path), Lit '' to S3...''] w in
      case files w1 file_path of
        None \<Rightarrow> (Raised OSError, w1)
      | Some st \<Rightarrow>
          if \<not> is_file st \<or> \<not> readable st then (Raised OSError, w1)
          else
            (case send \<lparr>verb = ''PUT'', url = [Val presigned_url],
                         headers = [(''Content-Type'', [Lit ''text/csv'']),
                                    (''Content-Length'', [Num file_size])],
                         body = FileBody file_path, timeout = 300\<rparr> w1 of
               (Failure e, w2) \<Rightarrow> (Raised (RequestException e), w2)
             | (Response status_code data, w2) \<Rightarrow>
                 if status_code = 200 then
                   (Returned (), log_success [Lit ''File uploaded to S3 successfully''] w2)
                 else
                   (Exit EXIT_SYSTEM_ERROR,
                    log_error [Lit ''Response: '', RawText data]
                      (log_error [Lit ''S3 upload failed (status '', Num status_code, Lit '')'']
                        w2))))"

definition upload_to_s3 ::
  "pyval \<Rightarrow> string \<Rightarrow> int \<Rightarrow> world \<Rightarrow> (unit outcome \<times> world) option" where
  "upload_to_s3 presigned_url file_path file_size =
     retry_on_network_error (\<lambda>w. Some (upload_to_s3_body presigned_url file_path file_size w))"

text \<open>
  \<^verbatim>\<open>poll_status\<close>. The \<^verbatim>\<open>while True\<close> loop has no bound: \<open>poll_loop\<close> is \<open>None\<close> when
  the loop never ends. Its state is \<^verbatim>\<open>last_status\<close>, which starts as \<^verbatim>\<open>None\<close>.
\<close>

definition status_request :: "string \<Rightarrow> pyval \<Rightarrow> pyval \<Rightarrow> request" where
  "status_request source_id upload_id access_token =
     api_request ''GET'' [Lit ''/sources/'', Lit source_id, Lit ''/uploads/'', Val upload_id]
       access_token NoBody"

partial_function (option) poll_loop ::
  "string \<Rightarrow> pyval \<Rightarrow> pyval \<Rightarrow> string \<Rightarrow> string \<Rightarrow> pyval \<Rightarrow> world
    \<Rightarrow> (pyval outcome \<times> world) option" where
  "poll_loop source_id upload_id access_token target_status phase_name last_status w =
     (case send (status_request source_id upload_id access_token) w of
        (Failure e, w1) \<Rightarrow> Some (Raised (RequestException e), w1)
      | (Response status_code data, w1) \<Rightarrow>
          if status_code = 200 then
            (case data of
               PDict d \<Rightarrow>
                 (let current_status = dict_get d ''status'' PNone;
                      changed = \<not> py_eq current_status last_status;
                      w2 = (if changed then log_info [Lit ''Status: '', Val current_status] w1
                            else w1);
                      last_status = (if changed then current_status else last_status)
                  in
                  if py_eq current_status (PStr ''failed'') then
                    Some (Exit EXIT_SYSTEM_ERROR,
                      log_error [Lit phase_name, Lit '' failed: '',
                          Val (dict_get d ''errorMessage'' (PStr ''Unknown error''))] w2)
                  else if py_eq current_status (PStr target_status) then
                    Some (Returned data,
                      log_success [Lit phase_name, Lit '' completed in '', Elapsed,
                          Lit '' seconds''] w2)
                  else
                    poll_loop source_id upload_id access_token target_status phase_name
                      last_status (sleep POLL_INTERVAL_SECONDS w2))
             | _ \<Rightarrow> Some (Raised AttributeError, w1))
          else
            Some (Exit EXIT_SYSTEM_ERROR,
              log_error [Lit ''Failed to poll status (status '', Num status_code, Lit '')''] w1))"

definition poll_status_body ::
  "string \<Rightarrow> pyval \<Rightarrow> pyval \<Rightarrow> string \<Rightarrow> string \<Rightarrow> world
    \<Rightarrow> (pyval outcome \<times> world) option" where
  "poll_status_body source_id upload_id access_token target_status phase_name w =
     poll_loop source_id upload_id access_token target_status phase_name PNone
       (log_progress [Lit ''Waiting for '', Lit phase_name, Lit ''...''] w)"

definition poll_status ::
  "string \<Rightarrow> pyval \<Rightarrow> pyval \<Rightarrow> string \<Rightarrow> string \<Rightarrow> world
    \<Rightarrow> (pyval outcome \<times> world) option" where
  "poll_status source_id upload_id access_token target_status phase_name =
     retry_on_network_error
       (poll_status_body source_id upload_id access_token target_status phase_name)"

definition request_import_body :: "string \<Rightarrow> pyval \<Rightarrow> pyval \<Rightarrow> unit op" where
  "request_import_body source_id upload_id access_token w =
     (case send (api_request ''PUT''
                   [Lit ''/sources/'', Lit source_id, Lit ''/uploads/'', Val upload_id,
                    Lit ''/status'']
                   access_token (JsonBody (PDict [(''status'', PStr ''importRequested'')])))
             (log_progress [Lit ''Requesting import...''] w) of
        (Failure e, w1) \<Rightarrow> (Raised (RequestException e), w1)
      | (Response status_code data, w1) \<Rightarrow>
          if status_code \<in> {200, 202, 204} then
            (Returned (), log_success [Lit ''Import requested''] w1)
          else
            (Exit EXIT_SYSTEM_ERROR,
             log_error [Lit ''Error details: '', Dumps data]
               (log_error [Lit ''Failed to request import (status '', Num status_code, Lit '')'']
                 w1)))"

definition request_import ::
  "string \<Rightarrow> pyval \<Rightarrow> pyval \<Rightarrow> world \<Rightarrow> (unit outcome \<times> world) option" where
  "request_import source_id upload_id access_token =
     retry_on_network_error (\<lambda>w. Some (request_import_body source_id upload_id access_token w))"

section \<open>The main function\<close>

text \<open>
  Sequencing of two steps: the second runs on what the first returned; an exit or an
  exception of the first ends the sequence, and so does a first step that never returns.
\<close>

definition and_then ::
  "(world \<Rightarrow> ('a outcome \<times> world) option) \<Rightarrow> ('a \<Rightarrow> world \<Rightarrow> ('b outcome \<times> world) option)
    \<Rightarrow> world \<Rightarrow> ('b outcome \<times> world) option" where
  "and_then step rest w =
     (case step w of
        None \<Rightarrow> None
      | Some (Returned a, w1) \<Rightarrow> rest a w1
      | Some (Exit c, w1) \<Rightarrow> Some (Exit c, w1)
      | Some (Raised e, w1) \<Rightarrow> Some (Raised e, w1))"

definition banner :: fstring where
  "banner = [Lit (replicate 60 CHR ''='')]"

definition summary :: "string \<Rightarrow> pyval \<Rightarrow> unit op" where
  "summary file_path final_data w =
     (case final_data of
        PDict d \<Rightarrow>
          (Exit EXIT_SUCCESS,
           emit Plain banner
             (log_success [Lit ''Duration: '', Elapsed, Lit '' seconds'']
               (log_success [Lit ''Imported Records: '', Val (dict_get d ''importedRecords'' (PInt 0))]
                 (log_success [Lit ''Total Records: '', Val (dict_get d ''totalRecords'' (PInt 0))]
                   (log_success [Lit ''File: '', Lit (path_name file_path)]
                     (emit Plain banner
                       (emit Plain [Lit ''UPLOAD SUMMARY'']
                         (emit Plain (Lit ''\<newline>'' # banner) w))))))))
      | _ \<Rightarrow> (Raised AttributeError, w))"

text \<open>
  The \<^verbatim>\<open>try\<close> block of \<^verbatim>\<open>main\<close>, for the two command-line arguments. The steps up to
  the concurrency gate always return; the decorated ones may not.
\<close>

definition main_steps :: "string \<Rightarrow> string \<Rightarrow> world \<Rightarrow> (unit outcome \<times> world) option" where
  "main_steps source_id file_path_str =
     and_then (\<lambda>w. Some (get_access_token w)) (\<lambda>access_token.
     and_then (\<lambda>w. Some (validate_file file_path_str w)) (\<lambda>(file_path, file_size).
     and_then (\<lambda>w. Some (validate_source source_id access_token w)) (\<lambda>_.
     and_then (\<lambda>w. Some (check_concurrent_uploads source_id access_token w)) (\<lambda>_.
     and_then (create_upload source_id (path_name file_path) access_token)
       (\<lambda>(upload_id, presigned_url).
     and_then (upload_to_s3 presigned_url file_path file_size) (\<lambda>_.
     and_then (poll_status source_id upload_id access_token ''analysisCompleted'' ''analysis'')
       (\<lambda>analysis_data.
     and_then (request_import source_id upload_id access_token) (\<lambda>_.
     and_then (poll_status source_id upload_id access_token ''importCompleted'' ''import'')
       (\<lambda>final_data w. Some (summary file_path final_data w))))))))))"

text \<open>
  \<^verbatim>\<open>main\<close>: the header, the steps, and the handler \<^verbatim>\<open>except Exception\<close>, which turns
  every exception into the exit code of a system error. The result is the exit code of the
  process. An interrupt from the keyboard is not part of the model.
\<close>

definition main :: "string \<Rightarrow> string \<Rightarrow> world \<Rightarrow> (int \<times> world) option" where
  "main source_id file_path_str w =
     (case main_steps source_id file_path_str
             (emit Plain banner
               (emit Plain [Lit ''harpin AI CSV Upload Script''] (emit Plain banner w))) of
        None \<Rightarrow> None
      | Some (Returned _, w1) \<Rightarrow> Some (EXIT_SUCCESS, w1)
      | Some (Exit c, w1) \<Rightarrow> Some (c, w1)
      | Some (Raised e, w1) \<Rightarrow>
          Some (EXIT_SYSTEM_ERROR, log_error [Lit ''Unexpected error: '', ExcText e] w1))"

section \<open>Notions of the specification\<close>

text \<open>
  The definitions of this section are not part of the script: they say, in the words of
  the specification, what the theorems below compare the script with.
\<close>

text \<open>
  A credential variable counts as missing when it is absent from the environment, empty,
  or made of whitespace only.
\<close>

definition blank_var :: "world \<Rightarrow> string \<Rightarrow> bool" where
  "blank_var w name =
     (case environ w name of None \<Rightarrow> True | Some s \<Rightarrow> list_all py_isspace s)"

text \<open>
  An entry of the upload list counts as in progress when it is a mapping whose status is
  one of the five in-progress statuses.
\<close>

definition counted_status :: "pyval \<Rightarrow> bool" where
  "counted_status u =
     (case u of
        PDict d \<Rightarrow>
          (case map_of d ''status'' of
             Some (PStr s) \<Rightarrow>
               s \<in> {''created'', ''analysisInProgress'', ''analysisCompleted'',
                     ''importRequested'', ''importInProgress''}
           | _ \<Rightarrow> False)
      | _ \<Rightarrow> False)"

text \<open>The status a polled payload carries (\<^verbatim>\<open>None\<close> when it has no status).\<close>

definition status_of :: "(string \<times> pyval) list \<Rightarrow> pyval" where
  "status_of d = dict_get d ''status'' PNone"

text \<open>
  The status lines of a sequence of polled statuses: a status is logged when it differs
  from the status logged last (at first, from \<^verbatim>\<open>None\<close>).
\<close>

fun status_lines :: "pyval \<Rightarrow> pyval list \<Rightarrow> logline list" where
  "status_lines last_status [] = []"
| "status_lines last_status (s # ss) =
     (if py_eq s last_status then status_lines last_status ss
      else (Info, [Lit ''Status: '', Val s]) # status_lines s ss)"

text \<open>
  How polling ends at a payload whose status is \<^verbatim>\<open>failed\<close> or the target: a failed
  upload is a system error that shows the server's error message, the target status is
  success with the payload as result. The second component is the line logged last.
\<close>

definition poll_end ::
  "string \<Rightarrow> (string \<times> pyval) list \<Rightarrow> pyval outcome \<times> logline" where
  "poll_end phase_name d =
     (if status_of d = PStr ''failed'' then
        (Exit 2,
         (Error, [Lit phase_name, Lit '' failed: '',
                  Val (dict_get d ''errorMessage'' (PStr ''Unknown error''))]))
      else
        (Returned (PDict d),
         (Success, [Lit phase_name, Lit '' completed in '', Elapsed, Lit '' seconds''])))"

text \<open>The outcomes the retry decorator catches.\<close>

definition transport_error :: "'a outcome \<Rightarrow> bool" where
  "transport_error r = (case r of Raised (RequestException e) \<Rightarrow> True | _ \<Rightarrow> False)"

subsection \<open>Example runs\<close>

text \<open>
  A network that answers the calls of a run with the replies of a list, in order, and
  refuses every call after them.
\<close>

definition script :: "reply list \<Rightarrow> nat \<Rightarrow> reply" where
  "script replies n =
     (if n < length replies then replies ! n else Failure ''connection refused'')"

text \<open>The world at the start of a run.\<close>

definition initial_world ::
  "(string \<times> string) list \<Rightarrow> (string \<times> file_stat) list \<Rightarrow> reply list \<Rightarrow> world" where
  "initial_world env fs replies =
     \<lparr>environ = map_of env, files = map_of fs, net = script replies,
      sent = [], out = [], slept = []\<rparr>"

definition credentials :: "(string \<times> string) list" where
  "credentials = [(''HARPIN_CLIENT_ID'', ''client''), (''HARPIN_REFRESH_TOKEN'', ''refresh'')]"

definition csv_file :: "int \<Rightarrow> file_stat" where
  "csv_file n = \<lparr>is_file = True, readable = True, st_size = n\<rparr>"

text \<open>
  Two networks for the create-upload call: one that fails twice and then accepts the
  upload, and one that fails three times.
\<close>

definition flaky_net :: "reply list" where
  "flaky_net =
     [Failure ''timed out'', Failure ''connection reset'',
      Response 201 (PDict [(''id'', PStr ''U1''), (''url'', PStr ''https://bucket/U1'')])]"

definition dead_net :: "reply list" where
  "dead_net = [Failure ''timed out'', Failure ''connection reset'', Failure ''no route'']"

text \<open>An upload list with three uploads in progress among its five entries.\<close>

definition busy_uploads :: "pyval list" where
  "busy_uploads =
     [PDict [(''id'', PStr ''U1''), (''status'', PStr ''importInProgress'')],
      PDict [(''id'', PStr ''U2''), (''status'', PStr ''importCompleted'')],
      PStr ''stray'',
      PDict [(''id'', PStr ''U3''), (''status'', PStr ''created'')],
      PDict [(''id'', PStr ''U4''), (''status'', PStr ''analysisCompleted'')]]"

text \<open>
  Two networks for polling: an analysis that completes at the fourth poll, and an analysis
  that fails at the second.
\<close>

definition poll_payload :: "string \<Rightarrow> (string \<times> pyval) list" where
  "poll_payload s = [(''id'', PStr ''U1''), (''status'', PStr s)]"

definition failed_payload :: "(string \<times> pyval) list" where
  "failed_payload = [(''status'', PStr ''failed''), (''errorMessage'', PStr ''bad header'')]"

definition analysis_net :: "reply list" where
  "analysis_net =
     [Response 200 (PDict (poll_payload ''created'')),
      Response 200 (PDict (poll_payload ''analysisInProgress'')),
      Response 200 (PDict (poll_payload ''analysisInProgress'')),
      Response 200 (PDict (poll_payload ''analysisCompleted''))]"

definition failing_net :: "reply list" where
  "failing_net =
     [Response 200 (PDict (poll_payload ''created'')), Response 200 (PDict failed_payload)]"

text \<open>
  For the listing of sources: a value that is a mapping, a source of type
  \<^verbatim>\<open>flatFile\<close>, and the line that displays a source.
\<close>

definition is_mapping :: "pyval \<Rightarrow> bool" where
  "is_mapping v = (case v of PDict _ \<Rightarrow> True | _ \<Rightarrow> False)"

definition flat_file_source :: "pyval \<Rightarrow> bool" where
  "flat_file_source s =
     (case s of PDict d \<Rightarrow> map_of d ''sourceSystem'' = Some (PStr ''flatFile'') | _ \<Rightarrow> False)"

definition source_line :: "pyval \<Rightarrow> logline" where
  "source_line s =
     (case s of
        PDict d \<Rightarrow>
          (Info, [Lit ''ID: '', Val (dict_get d ''id'' (PStr ''N/A'')), Lit '', Name: '',
                  Val (dict_get d ''name'' (PStr ''N/A''))])
      | _ \<Rightarrow> (Info, []))"

text \<open>
  A reply to the listing call that the 404 branch of \<^verbatim>\<open>validate_source\<close> handles: the
  call fails, or the status is not 200, or the body is a mapping whose \<^verbatim>\<open>content\<close> is
  missing or a list of mappings. The second component is the list of sources it carries.
\<close>

fun handled_listing :: "reply \<Rightarrow> pyval list \<Rightarrow> bool" where
  "handled_listing (Failure e) sources = (sources = [])"
| "handled_listing (Response status_code data) sources =
     (if status_code = 200 then
        (case data of
           PDict d \<Rightarrow>
             dict_get d ''content'' (PList []) = PList sources \<and> list_all is_mapping sources
         | _ \<Rightarrow> False)
      else sources = [])"

text \<open>What the 404 branch prints for such a reply, after its first two lines.\<close>

fun listing_lines :: "reply \<Rightarrow> pyval list \<Rightarrow> logline list" where
  "listing_lines (Failure e) sources =
     [(Error, [Lit ''Failed to retrieve available sources: '', Lit e])]"
| "listing_lines (Response status_code data) sources =
     (if status_code = 200 then
        (if filter flat_file_source sources \<noteq> [] then
           (Info, [Lit ''\<newline>Available flatFile sources:''])
             # map source_line (filter flat_file_source sources)
         else [(Info, [Lit ''No flatFile sources available''])])
      else [(Error, [Lit ''Failed to retrieve available sources''])])"

text \<open>
  A run on a source that does not exist, where the listing call is answered with status
  200 and a bare JSON list.
\<close>

definition token_reply :: reply where
  "token_reply = Response 200 (PDict [(''accessToken'', PStr ''token'')])"

definition bare_list_net :: "reply list" where
  "bare_list_net = [Response 404 (PDict [(''message'', PStr ''not found'')]),
                    Response 200 (PList [])]"

definition some_sources :: "pyval list" where
  "some_sources =
     [PDict [(''id'', PStr ''S1''), (''name'', PStr ''orders''), (''sourceSystem'', PStr ''flatFile'')],
      PDict [(''id'', PStr ''S7''), (''name'', PStr ''crm''), (''sourceSystem'', PStr ''salesforce'')]]"

section \<open>Basic facts\<close>

lemmas log_defs = log_info_def log_success_def log_error_def log_progress_def emit_def

lemma py_eq_PStr: "py_eq v (PStr s) = (v = PStr s)"
  by (cases v) auto

lemma all_dropWhile: "(\<forall>x\<in>set (dropWhile P s). P x) = (\<forall>x\<in>set s. P x)"
  by (induction s) auto

lemma strip_empty: "(strip s = []) = list_all py_isspace s"
  by (simp add: strip_def list_all_iff all_dropWhile)

lemma blank_var_strip: "blank_var w name = (strip (environ_get w name []) = [])"
  by (simp add: blank_var_def environ_get_def strip_empty split: option.split)

subsection \<open>The retry decorator\<close>

lemma attempts_list: "[1..<RETRY_ATTEMPTS + 1] = [1, 2, 3]"
  by (simp add: RETRY_ATTEMPTS_def upt_rec)

lemma retry_unfold: "retry_on_network_error func w = retry_loop func [1, 2, 3] None w"
  unfolding retry_on_network_error_def attempts_list ..

lemma backoff_fields:
  "sent (backoff n e w) = sent w" "slept (backoff n e w) = slept w @ [10]"
  "net (backoff n e w) = net w" "files (backoff n e w) = files w"
  by (simp_all add: backoff_def sleep_def log_defs RETRY_DELAY_SECONDS_def)

lemma give_up_fields:
  "sent (give_up e w) = sent w" "slept (give_up e w) = slept w"
  "net (give_up e w) = net w" "files (give_up e w) = files w"
  by (simp_all add: give_up_def log_defs)

text \<open>An outcome the decorator does not catch is the outcome of the decorated function.\<close>

lemma retry_first_attempt:
  assumes "func w = Some (r, w1)" and "\<not> transport_error r"
  shows "retry_on_network_error func w = Some (r, w1)"
  using assms
  by (simp add: retry_unfold transport_error_def split: outcome.splits exc.splits)

lemma retry_second_attempt:
  assumes "func w = Some (Raised (RequestException e1), w1)"
    and "func (backoff 1 e1 w1) = Some (r, w2)" and "\<not> transport_error r"
  shows "retry_on_network_error func w = Some (r, w2)"
  using assms
  by (simp add: retry_unfold transport_error_def RETRY_ATTEMPTS_def
      split: outcome.splits exc.splits)

lemma retry_third_attempt:
  assumes "func w = Some (Raised (RequestException e1), w1)"
    and "func (backoff 1 e1 w1) = Some (Raised (RequestException e2), w2)"
    and "func (backoff 2 e2 w2) = Some (r, w3)"
  shows "retry_on_network_error func w =
      Some (case r of Raised (RequestException e3) \<Rightarrow> (r, give_up e3 w3) | _ \<Rightarrow> (r, w3))"
  using assms
  by (simp add: retry_unfold RETRY_ATTEMPTS_def split: outcome.splits exc.splits)

lemma three_attempts_slept:
  assumes frame: "\<forall>u r u'. func u = Some (r, u') \<longrightarrow> sent u' = sent u @ [rq] \<and> slept u' = slept u"
    and f1: "func w = Some (r1, w1)"
    and f2: "func (backoff 1 e1 w1) = Some (r2, w2)"
    and f3: "func (backoff 2 e2 w2) = Some (r3, w3)"
  shows "slept w3 = slept w @ [RETRY_DELAY_SECONDS, RETRY_DELAY_SECONDS]"
proof -
  have s1: "slept w1 = slept w" using frame f1 by blast
  have s2: "slept w2 = slept (backoff 1 e1 w1)" using frame f2 by blast
  have s3: "slept w3 = slept (backoff 2 e2 w2)" using frame f3 by blast
  show ?thesis by (simp add: s1 s2 s3 backoff_fields RETRY_DELAY_SECONDS_def)
qed

subsection \<open>The polling loop\<close>

text \<open>
  The loop on a run of successful polls: the payloads \<open>payloads\<close> carry neither
  \<^verbatim>\<open>failed\<close> nor the target, the payload \<open>d\<close> after them carries one of the two.
\<close>

lemma poll_loop_run:
  assumes "\<forall>i < length payloads.
      net w (length (sent w) + i) = Response 200 (PDict (payloads ! i))"
    and "\<forall>p \<in> set payloads.
      status_of p \<noteq> PStr ''failed'' \<and> status_of p \<noteq> PStr target_status"
    and "net w (length (sent w) + length payloads) = Response 200 (PDict d)"
    and "status_of d = PStr ''failed'' \<or> status_of d = PStr target_status"
  shows "poll_loop source_id upload_id access_token target_status phase_name last_status w =
      Some (fst (poll_end phase_name d),
        w\<lparr>sent := sent w @ replicate (Suc (length payloads))
                            (status_request source_id upload_id access_token),
          out := out w @ status_lines last_status (map status_of (payloads @ [d]))
                   @ [snd (poll_end phase_name d)],
          slept := slept w @ replicate (length payloads) POLL_INTERVAL_SECONDS\<rparr>)"
  using assms
proof (induction payloads arbitrary: w last_status)
  case Nil
  then show ?case
    apply (subst poll_loop.simps)
    apply (auto simp add: send_def status_of_def [symmetric] py_eq_PStr poll_end_def log_defs
        Let_def EXIT_SYSTEM_ERROR_def)
    done
next
  case (Cons p payloads)
  let ?rq = "status_request source_id upload_id access_token"
  have first: "net w (length (sent w)) = Response 200 (PDict p)"
    using Cons.prems(1) by force
  have pend: "status_of p \<noteq> PStr ''failed''" "status_of p \<noteq> PStr target_status"
    using Cons.prems(2) by auto
  define w2 where "w2 = sleep POLL_INTERVAL_SECONDS
      ((if \<not> py_eq (status_of p) last_status
        then log_info [Lit ''Status: '', Val (status_of p)] else id)
        (w\<lparr>sent := sent w @ [?rq]\<rparr>))"
  define last2 where
    "last2 = (if \<not> py_eq (status_of p) last_status then status_of p else last_status)"
  have step: "poll_loop source_id upload_id access_token target_status phase_name last_status w
      = poll_loop source_id upload_id access_token target_status phase_name last2 w2"
    apply (subst poll_loop.simps)
    using first pend
    apply (simp add: send_def status_of_def [symmetric] py_eq_PStr Let_def w2_def last2_def)
    done
  have s2: "sent w2 = sent w @ [?rq]" "net w2 = net w"
    by (simp_all add: w2_def sleep_def log_defs)
  have a1: "\<forall>i < length payloads.
      net w2 (length (sent w2) + i) = Response 200 (PDict (payloads ! i))"
  proof (intro allI impI)
    fix i assume "i < length payloads"
    then have "net w (length (sent w) + Suc i) = Response 200 (PDict ((p # payloads) ! Suc i))"
      using Cons.prems(1) by (metis Suc_less_eq length_Cons)
    then show "net w2 (length (sent w2) + i) = Response 200 (PDict (payloads ! i))"
      by (simp add: s2)
  qed
  have a2: "\<forall>p \<in> set payloads.
      status_of p \<noteq> PStr ''failed'' \<and> status_of p \<noteq> PStr target_status"
    using Cons.prems(2) by simp
  have a3: "net w2 (length (sent w2) + length payloads) = Response 200 (PDict d)"
    using Cons.prems(3) by (simp add: s2)
  have lines: "status_lines last_status (map status_of ((p # payloads) @ [d]))
      = (if \<not> py_eq (status_of p) last_status
         then [(Info, [Lit ''Status: '', Val (status_of p)])] else [])
        @ status_lines last2 (map status_of (payloads @ [d]))"
    by (simp add: last2_def)
  show ?case
    unfolding step Cons.IH [OF a1 a2 a3 Cons.prems(4)] lines
    by (simp add: w2_def sleep_def log_defs replicate_app_Cons_same)
qed

subsection \<open>The concurrency gate\<close>

lemma py_in_counted:
  "py_in (dict_get d ''status'' PNone) in_progress_statuses = counted_status (PDict d)"
  by (auto simp add: py_in_def in_progress_statuses_def counted_status_def dict_get_def
      py_eq_PStr split: option.split pyval.split)

lemma in_progress_loop_filter:
  "fst (in_progress_loop uploads in_progress w) = in_progress @ filter counted_status uploads"
proof (induction uploads arbitrary: in_progress w)
  case Nil
  then show ?case by simp
next
  case (Cons u uploads)
  show ?case
  proof (cases u)
    case (PDict d)
    then show ?thesis using Cons.IH by (simp add: py_in_counted Let_def)
  qed (simp_all add: Cons.IH counted_status_def)
qed

subsection \<open>Calls made by the wrapped operations\<close>

lemma create_upload_body_frame:
  "sent (snd (create_upload_body source_id file_name access_token u)) = sent u @
     [api_request ''POST'' [Lit ''/sources/'', Lit source_id, Lit ''/uploads'']
        access_token (JsonBody (PDict [(''fileName'', PStr file_name)]))]
   \<and> slept (snd (create_upload_body source_id file_name access_token u)) = slept u"
  by (simp add: create_upload_body_def send_def log_defs Let_def
      split: reply.split pyval.split)

lemma retry_second_call:
  assumes f1: "func w = Some (Raised (RequestException e), w1)"
    and run: "retry_on_network_error func w = Some (r, w')"
    and grows: "\<And>u r u'. files u = files w \<Longrightarrow> func u = Some (r, u') \<Longrightarrow>
        length (sent u) < length (sent u') \<and> files u' = files u"
  shows "length (sent w) + 2 \<le> length (sent w')"
proof -
  have g1: "length (sent w) < length (sent w1)" "files w1 = files w"
    using grows [OF _ f1] by simp_all
  show ?thesis
  proof (cases "func (backoff 1 e w1)")
    case None
    then show ?thesis using run f1 by (simp add: retry_unfold RETRY_ATTEMPTS_def)
  next
    case (Some b)
    then obtain r2 w2 where f2: "func (backoff 1 e w1) = Some (r2, w2)" by (cases b) auto
    have g2: "length (sent w1) < length (sent w2)" "files w2 = files w"
      using grows [OF _ f2] g1 by (simp_all add: backoff_fields)
    show ?thesis
    proof (cases "transport_error r2")
      case False
      then have "w' = w2" using retry_second_attempt [of func w e w1 r2 w2] f1 f2 run by simp
      then show ?thesis using g1 g2 by simp
    next
      case True
      then obtain e2 where r2: "r2 = Raised (RequestException e2)"
        by (auto simp add: transport_error_def split: outcome.splits exc.splits)
      show ?thesis
      proof (cases "func (backoff 2 e2 w2)")
        case None
        then show ?thesis using run f1 f2 r2 by (simp add: retry_unfold RETRY_ATTEMPTS_def)
      next
        case (Some c)
        then obtain r3 w3 where f3: "func (backoff 2 e2 w2) = Some (r3, w3)" by (cases c) auto
        have g3: "length (sent w2) < length (sent w3)"
          using grows [OF _ f3] g2 by (simp_all add: backoff_fields)
        have "w' = w3 \<or> (\<exists>e3. w' = give_up e3 w3)"
          using retry_third_attempt [of func w e w1 e2 w2 r3 w3] f1 f2 r2 f3 run
          by (auto split: outcome.splits exc.splits)
        then show ?thesis using g1 g2 g3 by (auto simp add: give_up_fields)
      qed
    qed
  qed
qed

lemma retry_loop_total:
  assumes "\<And>u. func u \<noteq> None"
  shows "retry_loop func attempts last_exception w \<noteq> None"
proof (induction attempts arbitrary: last_exception w)
  case Nil
  then show ?case by simp
next
  case (Cons a attempts)
  obtain r w1 where "func w = Some (r, w1)" using assms [of w] by (cases "func w") auto
  then show ?case using Cons.IH
    by (simp split: outcome.split exc.split)
qed

lemma request_import_body_frame:
  "sent (snd (request_import_body source_id upload_id access_token u)) = sent u @
     [api_request ''PUT'' [Lit ''/sources/'', Lit source_id, Lit ''/uploads/'', Val upload_id,
          Lit ''/status'']
        access_token (JsonBody (PDict [(''status'', PStr ''importRequested'')]))]
   \<and> files (snd (request_import_body source_id upload_id access_token u)) = files u"
  by (simp add: request_import_body_def send_def log_defs split: reply.split)

lemma create_upload_body_files:
  "files (snd (create_upload_body source_id file_name access_token u)) = files u"
  by (simp add: create_upload_body_def send_def log_defs Let_def
      split: reply.split pyval.split)

lemma upload_to_s3_body_frame:
  assumes "files u file_path = Some st" and "is_file st" and "readable st"
  shows "length (sent (snd (upload_to_s3_body presigned_url file_path file_size u)))
      = Suc (length (sent u))
    \<and> files (snd (upload_to_s3_body presigned_url file_path file_size u)) = files u"
  using assms
  by (simp add: upload_to_s3_body_def send_def log_defs Let_def split: reply.split)

lemma poll_loop_grows:
  assumes "poll_loop source_id upload_id access_token target_status phase_name last_status w
      = Some y"
  shows "length (sent w) < length (sent (snd y)) \<and> files (snd y) = files w"
proof (rule poll_loop.raw_induct
    [where P = "\<lambda>_ _ _ _ _ _ u z. length (sent u) < length (sent (snd z)) \<and> files (snd z) = files u",
      OF _ assms])
  fix loop :: "string \<Rightarrow> pyval \<Rightarrow> pyval \<Rightarrow> string \<Rightarrow> string \<Rightarrow> pyval \<Rightarrow> world
      \<Rightarrow> (pyval outcome \<times> world) option"
  fix source_id upload_id access_token target_status phase_name last_status u z
  assume ih: "\<And>source_id upload_id access_token target_status phase_name last_status u z.
      loop source_id upload_id access_token target_status phase_name last_status u = Some z
      \<Longrightarrow> length (sent u) < length (sent (snd z)) \<and> files (snd z) = files u"
  assume step: "(case send (status_request source_id upload_id access_token) u of
        (Failure e, w1) \<Rightarrow> Some (Raised (RequestException e), w1)
      | (Response status_code data, w1) \<Rightarrow>
          if status_code = 200 then
            (case data of
               PDict d \<Rightarrow>
                 (let current_status = dict_get d ''status'' PNone;
                      changed = \<not> py_eq current_status last_status;
                      w2 = (if changed then log_info [Lit ''Status: '', Val current_status] w1
                            else w1);
                      last_status = (if changed then current_status else last_status)
                  in
                  if py_eq current_status (PStr ''failed'') then
                    Some (Exit EXIT_SYSTEM_ERROR,
                      log_error [Lit phase_name, Lit '' failed: '',
                          Val (dict_get d ''errorMessage'' (PStr ''Unknown error''))] w2)
                  else if py_eq current_status (PStr target_status) then
                    Some (Returned data,
                      log_success [Lit phase_name, Lit '' completed in '', Elapsed,
                          Lit '' seconds''] w2)
                  else
                    loop source_id upload_id access_token target_status phase_name
                      last_status (sleep POLL_INTERVAL_SECONDS w2))
             | _ \<Rightarrow> Some (Raised AttributeError, w1))
          else
            Some (Exit EXIT_SYSTEM_ERROR,
              log_error [Lit ''Failed to poll status (status '', Num status_code, Lit '')''] w1))
      = Some z"
  show "length (sent u) < length (sent (snd z)) \<and> files (snd z) = files u"
    using step
    by (auto simp add: send_def log_defs Let_def sleep_def
        split: reply.splits pyval.splits if_splits dest!: ih)
qed


lemma retry_total:
  assumes "\<And>u. func u \<noteq> None"
  shows "retry_on_network_error func w \<noteq> None"
  unfolding retry_unfold using retry_loop_total [OF assms] .

section \<open>Remote source validation: statuses other than 200 and 404\<close>

text \<open>
  Claim C1 says that a fetch-source response whose status is neither 200 nor 404 ends the
  process as a system error (exit code 2). The last branch of \<^verbatim>\<open>validate_source\<close> calls
  \<^verbatim>\<open>sys.exit(EXIT_USER_ERROR)\<close>: on a response with status 500 the exit code is 1, not 2.
\<close>

theorem validate_source_other_status_counterexample:
  "fst (validate_source ''S1'' (PStr ''token'') (initial_world [] [] [Response 500 PNone]))
     = Exit 1
   \<and> fst (validate_source ''S1'' (PStr ''token'') (initial_world [] [] [Response 500 PNone]))
     \<noteq> Exit EXIT_SYSTEM_ERROR"
  by (simp add: validate_source_def send_def log_defs EXIT_USER_ERROR_def EXIT_SYSTEM_ERROR_def
      initial_world_def script_def)

text \<open>
  Claim C1, amended. For every fetch-source response whose status is neither 200 nor 404,
  \<^verbatim>\<open>validate_source\<close> ends the process as a user error (exit code 1), after that one call.
\<close>

theorem validate_source_other_status:
  assumes "net w (length (sent w)) = Response status_code data"
    and "status_code \<noteq> 200" and "status_code \<noteq> 404"
  shows "fst (validate_source source_id access_token w) = Exit 1
    \<and> length (sent (snd (validate_source source_id access_token w))) = Suc (length (sent w))"
  using assms
  by (simp add: validate_source_def send_def log_defs EXIT_USER_ERROR_def)

theorem validate_source_other_status_witness:
  "fst (validate_source ''S1'' (PStr ''token'')
          (initial_world [] [] [Response 503 (PStr ''unavailable'')])) = Exit 1
   \<and> length (sent (snd (validate_source ''S1'' (PStr ''token'')
          (initial_world [] [] [Response 503 (PStr ''unavailable'')])))) = 1"
  using validate_source_other_status
    [of "initial_world [] [] [Response 503 (PStr ''unavailable'')]" 503 "PStr ''unavailable''"
      "''S1''" "PStr ''token''"]
  by (simp add: initial_world_def script_def)

section \<open>Polling: the first poll that reaches the target or fails\<close>

text \<open>
  Claim C2. Take any sequence of polls that are answered with status code 200 and a
  mapping: first the payloads \<open>payloads\<close>, whose statuses are neither \<^verbatim>\<open>failed\<close> nor
  the target, then the payload \<open>d\<close>, whose status is \<^verbatim>\<open>failed\<close> or the target. Then
  \<^verbatim>\<open>poll_status\<close> ends at the poll of \<open>d\<close>, after one call per payload and a sleep of
  5 seconds between two polls:
  \<^item> if the status of \<open>d\<close> is the target (and not \<^verbatim>\<open>failed\<close>), it returns the whole
    payload \<open>d\<close>, the payload of the first poll at the target status;
  \<^item> if the status of \<open>d\<close> is \<^verbatim>\<open>failed\<close>, it does not return: the process exits with
    code 2 after an error line that carries the \<^verbatim>\<open>errorMessage\<close> of \<open>d\<close>;
  \<^item> the status lines printed are those of \<open>status_lines\<close>: a status is printed
    when it differs from the status printed last, and only then.
\<close>

theorem poll_status_first_match:
  assumes polls: "\<forall>i < length payloads.
      net w (length (sent w) + i) = Response 200 (PDict (payloads ! i))"
    and pending: "\<forall>p \<in> set payloads.
      status_of p \<noteq> PStr ''failed'' \<and> status_of p \<noteq> PStr target_status"
    and final: "net w (length (sent w) + length payloads) = Response 200 (PDict d)"
    and ends: "status_of d = PStr ''failed'' \<or> status_of d = PStr target_status"
  shows "poll_status source_id upload_id access_token target_status phase_name w =
      Some (if status_of d = PStr ''failed'' then Exit 2 else Returned (PDict d),
        w\<lparr>sent := sent w @ replicate (Suc (length payloads))
                            (status_request source_id upload_id access_token),
          out := out w @ [(Progress, [Lit ''Waiting for '', Lit phase_name, Lit ''...''])]
                   @ status_lines PNone (map status_of (payloads @ [d]))
                   @ [if status_of d = PStr ''failed''
                      then (Error, [Lit phase_name, Lit '' failed: '',
                              Val (dict_get d ''errorMessage'' (PStr ''Unknown error''))])
                      else (Success, [Lit phase_name, Lit '' completed in '', Elapsed,
                              Lit '' seconds''])],
          slept := slept w @ replicate (length payloads) 5\<rparr>)"
proof -
  let ?w0 = "log_progress [Lit ''Waiting for '', Lit phase_name, Lit ''...''] w"
  have fields: "sent ?w0 = sent w" "net ?w0 = net w" by (simp_all add: log_defs)
  have body: "poll_status_body source_id upload_id access_token target_status phase_name w =
      Some (fst (poll_end phase_name d),
        ?w0\<lparr>sent := sent ?w0 @ replicate (Suc (length payloads))
                            (status_request source_id upload_id access_token),
          out := out ?w0 @ status_lines PNone (map status_of (payloads @ [d]))
                   @ [snd (poll_end phase_name d)],
          slept := slept ?w0 @ replicate (length payloads) POLL_INTERVAL_SECONDS\<rparr>)"
    unfolding poll_status_body_def
    by (rule poll_loop_run) (simp_all add: fields polls pending final ends)
  have caught: "\<not> transport_error (fst (poll_end phase_name d))"
    by (simp add: poll_end_def transport_error_def)
  show ?thesis
    unfolding poll_status_def
    using retry_first_attempt
      [of "poll_status_body source_id upload_id access_token target_status phase_name" w,
        OF body caught]
    by (simp add: poll_end_def log_defs POLL_INTERVAL_SECONDS_def)
qed

theorem poll_status_first_match_witness:
  "map_option fst (poll_status ''S1'' (PStr ''U1'') (PStr ''token'') ''analysisCompleted''
      ''analysis'' (initial_world [] [] analysis_net))
     = Some (Returned (PDict (poll_payload ''analysisCompleted'')))
   \<and> map_option (out \<circ> snd) (poll_status ''S1'' (PStr ''U1'') (PStr ''token'')
      ''analysisCompleted'' ''analysis'' (initial_world [] [] analysis_net))
     = Some [(Progress, [Lit ''Waiting for '', Lit ''analysis'', Lit ''...'']),
             (Info, [Lit ''Status: '', Val (PStr ''created'')]),
             (Info, [Lit ''Status: '', Val (PStr ''analysisInProgress'')]),
             (Info, [Lit ''Status: '', Val (PStr ''analysisCompleted'')]),
             (Success, [Lit ''analysis'', Lit '' completed in '', Elapsed, Lit '' seconds''])]
   \<and> map_option (slept \<circ> snd) (poll_status ''S1'' (PStr ''U1'') (PStr ''token'')
      ''analysisCompleted'' ''analysis'' (initial_world [] [] analysis_net)) = Some [5, 5, 5]
   \<and> map_option fst (poll_status ''S1'' (PStr ''U1'') (PStr ''token'') ''analysisCompleted''
      ''analysis'' (initial_world [] [] failing_net)) = Some (Exit 2)
   \<and> map_option (last \<circ> out \<circ> snd) (poll_status ''S1'' (PStr ''U1'') (PStr ''token'')
      ''analysisCompleted'' ''analysis'' (initial_world [] [] failing_net))
     = Some (Error, [Lit ''analysis'', Lit '' failed: '', Val (PStr ''bad header'')])"
proof -
  let ?a = "initial_world [] [] analysis_net"
  let ?ps = "[poll_payload ''created'', poll_payload ''analysisInProgress'',
      poll_payload ''analysisInProgress'']"
  have a1: "\<forall>i < length ?ps. net ?a (length (sent ?a) + i) = Response 200 (PDict (?ps ! i))"
    by (auto simp add: initial_world_def script_def analysis_net_def less_Suc_eq)
  have a2: "\<forall>p \<in> set ?ps.
      status_of p \<noteq> PStr ''failed'' \<and> status_of p \<noteq> PStr ''analysisCompleted''"
    by (simp add: status_of_def dict_get_def poll_payload_def)
  have a3: "net ?a (length (sent ?a) + length ?ps)
      = Response 200 (PDict (poll_payload ''analysisCompleted''))"
    by (simp add: initial_world_def script_def analysis_net_def)
  have a4: "status_of (poll_payload ''analysisCompleted'') = PStr ''failed''
      \<or> status_of (poll_payload ''analysisCompleted'') = PStr ''analysisCompleted''"
    by (simp add: status_of_def dict_get_def poll_payload_def)
  note a = poll_status_first_match [OF a1 a2 a3 a4, of "''S1''" "PStr ''U1''" "PStr ''token''"
      "''analysis''"]
  let ?b = "initial_world [] [] failing_net"
  let ?qs = "[poll_payload ''created'']"
  have b1: "\<forall>i < length ?qs. net ?b (length (sent ?b) + i) = Response 200 (PDict (?qs ! i))"
    by (auto simp add: initial_world_def script_def failing_net_def)
  have b2: "\<forall>p \<in> set ?qs.
      status_of p \<noteq> PStr ''failed'' \<and> status_of p \<noteq> PStr ''analysisCompleted''"
    by (simp add: status_of_def dict_get_def poll_payload_def)
  have b3: "net ?b (length (sent ?b) + length ?qs) = Response 200 (PDict failed_payload)"
    by (simp add: initial_world_def script_def failing_net_def)
  have b4: "status_of failed_payload = PStr ''failed''
      \<or> status_of failed_payload = PStr ''analysisCompleted''"
    by (simp add: status_of_def dict_get_def failed_payload_def)
  note b = poll_status_first_match [OF b1 b2 b3 b4, of "''S1''" "PStr ''U1''" "PStr ''token''"
      "''analysis''"]
  have sa: "status_of (poll_payload ''analysisCompleted'') \<noteq> PStr ''failed''"
    by (simp add: status_of_def dict_get_def poll_payload_def)
  have sb: "status_of failed_payload = PStr ''failed''"
    by (simp add: status_of_def dict_get_def failed_payload_def)
  show ?thesis
    unfolding a b
    by (simp add: sa sb initial_world_def status_of_def dict_get_def poll_payload_def
        failed_payload_def)
qed

section \<open>The retry decorator: three attempts, ten seconds apart\<close>

text \<open>
  Claim C3, for any wrapped operation \<open>func\<close> started in the world \<open>w\<close>.
  \<^item> The second attempt runs in the world the handler \<open>backoff\<close> makes of the world the
    first attempt left, the third in the world \<open>backoff\<close> makes of the world the second
    left; \<open>backoff\<close> sleeps once, 10 seconds. There is no fourth attempt.
  \<^item> If the first two attempts raise a transport exception and the third returns \<open>v\<close>,
    the decorated operation returns \<open>v\<close>, in the world the third attempt left.
  \<^item> If all three attempts raise a transport exception, the decorated operation raises
    the transport exception of the last attempt, unchanged, after the line that reports the
    failure and without another sleep.
  \<^item> If moreover \<open>func\<close> makes one HTTP call per attempt and does not sleep itself, a
    run of the decorated operation that ends has made \<open>k\<close> calls with \<open>1 \<le> k \<le> 3\<close>
    and has slept \<open>k - 1\<close> times 10 seconds; after two failed attempts and a third
    attempt, whatever its outcome, it has slept twice 10 seconds, 20 seconds in all.
\<close>

theorem retry_on_network_error_policy:
  fixes func :: "world \<Rightarrow> ('a outcome \<times> world) option"
  shows "(func w = Some (Raised (RequestException e1), w1)
         \<and> func (backoff 1 e1 w1) = Some (Raised (RequestException e2), w2) \<longrightarrow>
        slept (backoff 1 e1 w1) = slept w1 @ [10]
        \<and> slept (backoff 2 e2 w2) = slept w2 @ [10]
        \<and> (func (backoff 2 e2 w2) = Some (Returned v, w3) \<longrightarrow>
             retry_on_network_error func w = Some (Returned v, w3))
        \<and> (func (backoff 2 e2 w2) = Some (Raised (RequestException e3), w3) \<longrightarrow>
             retry_on_network_error func w = Some (Raised (RequestException e3), give_up e3 w3)
             \<and> slept (give_up e3 w3) = slept w3))
    \<and> ((\<forall>u r u'. func u = Some (r, u') \<longrightarrow> sent u' = sent u @ [rq] \<and> slept u' = slept u)
          \<longrightarrow>
        (\<forall>r w'. retry_on_network_error func w = Some (r, w') \<longrightarrow>
           (\<exists>k \<in> {1, 2, 3}. sent w' = sent w @ replicate k rq
              \<and> slept w' = slept w @ replicate (k - 1) RETRY_DELAY_SECONDS))
        \<and> (func w = Some (Raised (RequestException e1), w1)
             \<and> func (backoff 1 e1 w1) = Some (Raised (RequestException e2), w2)
             \<and> func (backoff 2 e2 w2) = Some (r3, w3) \<longrightarrow>
           slept w3 = slept w @ [RETRY_DELAY_SECONDS, RETRY_DELAY_SECONDS]))"
proof (intro conjI impI)
  assume c: "func w = Some (Raised (RequestException e1), w1)
      \<and> func (backoff 1 e1 w1) = Some (Raised (RequestException e2), w2)"
  show "slept (backoff 1 e1 w1) = slept w1 @ [10]" "slept (backoff 2 e2 w2) = slept w2 @ [10]"
    by (simp_all add: backoff_fields)
  {
    assume f3: "func (backoff 2 e2 w2) = Some (Returned v, w3)"
    show "retry_on_network_error func w = Some (Returned v, w3)"
      using retry_third_attempt [of func w e1 w1 e2 w2 _ w3] c f3 by simp
  }
  {
    assume f3: "func (backoff 2 e2 w2) = Some (Raised (RequestException e3), w3)"
    show "retry_on_network_error func w = Some (Raised (RequestException e3), give_up e3 w3)"
      using retry_third_attempt [of func w e1 w1 e2 w2 _ w3] c f3 by simp
    show "slept (give_up e3 w3) = slept w3"
      by (simp add: give_up_fields)
  }
next
  assume frame:
    "\<forall>u r u'. func u = Some (r, u') \<longrightarrow> sent u' = sent u @ [rq] \<and> slept u' = slept u"
  show "\<forall>r w'. retry_on_network_error func w = Some (r, w') \<longrightarrow>
      (\<exists>k \<in> {1, 2, 3}. sent w' = sent w @ replicate k rq
         \<and> slept w' = slept w @ replicate (k - 1) RETRY_DELAY_SECONDS)"
  proof (intro allI impI)
    fix r w'
    assume run: "retry_on_network_error func w = Some (r, w')"
    show "\<exists>k \<in> {1, 2, 3}. sent w' = sent w @ replicate k rq
        \<and> slept w' = slept w @ replicate (k - 1) RETRY_DELAY_SECONDS"
    proof (cases "func w")
      case None
      then show ?thesis using run
        by (simp add: retry_unfold)
    next
      case (Some a)
      then obtain r1 w1 where f1: "func w = Some (r1, w1)" by (cases a) auto
      have fr1: "sent w1 = sent w @ [rq]" "slept w1 = slept w" using frame f1 by auto
      show ?thesis
      proof (cases "transport_error r1")
        case False
        then have "w' = w1" using retry_first_attempt [of func w r1 w1] f1 run by simp
        then have "sent w' = sent w @ replicate 1 rq
            \<and> slept w' = slept w @ replicate (1 - 1) RETRY_DELAY_SECONDS"
          using fr1 by simp
        then show ?thesis by blast
      next
        case True
        then obtain e1 where r1: "r1 = Raised (RequestException e1)"
          by (auto simp add: transport_error_def split: outcome.splits exc.splits)
        show ?thesis
        proof (cases "func (backoff 1 e1 w1)")
          case None
          then show ?thesis using run f1 r1
            by (simp add: retry_unfold RETRY_ATTEMPTS_def)
        next
          case (Some b)
          then obtain r2 w2 where f2: "func (backoff 1 e1 w1) = Some (r2, w2)" by (cases b) auto
          have fr2: "sent w2 = sent w @ [rq, rq]" "slept w2 = slept w @ [10]"
            using frame f2 fr1 by (auto simp add: backoff_fields)
          show ?thesis
          proof (cases "transport_error r2")
            case False
            then have "w' = w2"
              using retry_second_attempt [of func w e1 w1 r2 w2] f1 r1 f2 run by simp
            then have "sent w' = sent w @ replicate 2 rq
                \<and> slept w' = slept w @ replicate (2 - 1) RETRY_DELAY_SECONDS"
              using fr2 by (simp add: RETRY_DELAY_SECONDS_def numeral_2_eq_2)
            then show ?thesis by blast
          next
            case True
            then obtain e2 where r2: "r2 = Raised (RequestException e2)"
              by (auto simp add: transport_error_def split: outcome.splits exc.splits)
            show ?thesis
            proof (cases "func (backoff 2 e2 w2)")
              case None
              then show ?thesis using run f1 r1 f2 r2
                by (simp add: retry_unfold RETRY_ATTEMPTS_def)
            next
              case (Some c)
              then obtain r3 w3 where f3: "func (backoff 2 e2 w2) = Some (r3, w3)"
                by (cases c) auto
              have fr3: "sent w3 = sent w @ [rq, rq, rq]" "slept w3 = slept w @ [10, 10]"
                using frame f3 fr2 by (auto simp add: backoff_fields)
              have "w' = w3 \<or> (\<exists>e3. w' = give_up e3 w3)"
                using retry_third_attempt [of func w e1 w1 e2 w2 r3 w3] f1 r1 f2 r2 f3 run
                by (auto split: outcome.splits exc.splits)
              then have "sent w' = sent w @ replicate 3 rq
                  \<and> slept w' = slept w @ replicate (3 - 1) RETRY_DELAY_SECONDS"
                using fr3
                by (auto simp add: give_up_fields RETRY_DELAY_SECONDS_def numeral_3_eq_3
                    numeral_2_eq_2)
              then show ?thesis by blast
            qed
          qed
        qed
      qed
    qed
  qed
next
  assume frame:
    "\<forall>u r u'. func u = Some (r, u') \<longrightarrow> sent u' = sent u @ [rq] \<and> slept u' = slept u"
  assume c: "func w = Some (Raised (RequestException e1), w1)
      \<and> func (backoff 1 e1 w1) = Some (Raised (RequestException e2), w2)
      \<and> func (backoff 2 e2 w2) = Some (r3, w3)"
  show "slept w3 = slept w @ [RETRY_DELAY_SECONDS, RETRY_DELAY_SECONDS]"
    using three_attempts_slept [OF frame, of w _ w1 e1 _ w2 e2 r3 w3] c by blast
qed

theorem retry_on_network_error_policy_witness:
  "map_option fst (create_upload ''S1'' ''data.csv'' (PStr ''token'')
      (initial_world [] [] flaky_net))
     = Some (Returned (PStr ''U1'', PStr ''https://bucket/U1''))
   \<and> map_option (slept \<circ> snd) (create_upload ''S1'' ''data.csv'' (PStr ''token'')
      (initial_world [] [] flaky_net)) = Some [10, 10]
   \<and> map_option fst (create_upload ''S1'' ''data.csv'' (PStr ''token'')
      (initial_world [] [] dead_net)) = Some (Raised (RequestException ''no route''))
   \<and> map_option (slept \<circ> snd) (create_upload ''S1'' ''data.csv'' (PStr ''token'')
      (initial_world [] [] dead_net)) = Some [10, 10]"
proof -
  let ?body = "create_upload_body ''S1'' ''data.csv'' (PStr ''token'')"
  let ?func = "\<lambda>w. Some (?body w)"
  let ?rq = "api_request ''POST'' [Lit ''/sources/'', Lit ''S1'', Lit ''/uploads'']
        (PStr ''token'') (JsonBody (PDict [(''fileName'', PStr ''data.csv'')]))"
  have frame: "\<forall>u r u'. ?func u = Some (r, u') \<longrightarrow>
      sent u' = sent u @ [?rq] \<and> slept u' = slept u"
    using create_upload_body_frame [of "''S1''" "''data.csv''" "PStr ''token''"]
    by (metis option.inject snd_conv)
  let ?a0 = "initial_world [] [] flaky_net"
  let ?a1 = "snd (?body ?a0)"
  let ?a2 = "snd (?body (backoff 1 ''timed out'' ?a1))"
  let ?a3 = "snd (?body (backoff 2 ''connection reset'' ?a2))"
  have a1: "fst (?body ?a0) = Raised (RequestException ''timed out'')" by code_simp
  have a2: "fst (?body (backoff 1 ''timed out'' ?a1))
      = Raised (RequestException ''connection reset'')"
    by code_simp
  have a3: "fst (?body (backoff 2 ''connection reset'' ?a2))
      = Returned (PStr ''U1'', PStr ''https://bucket/U1'')"
    by code_simp
  have fa: "?func ?a0 = Some (Raised (RequestException ''timed out''), ?a1)
      \<and> ?func (backoff 1 ''timed out'' ?a1)
        = Some (Raised (RequestException ''connection reset''), ?a2)"
    using a1 a2 by (simp add: prod_eq_iff)
  have fa3: "?func (backoff 2 ''connection reset'' ?a2)
      = Some (Returned (PStr ''U1'', PStr ''https://bucket/U1''), ?a3)"
    using a3 by (simp add: prod_eq_iff)
  have flaky: "retry_on_network_error ?func ?a0
        = Some (Returned (PStr ''U1'', PStr ''https://bucket/U1''), ?a3)
      \<and> slept ?a3 = slept ?a0 @ [RETRY_DELAY_SECONDS, RETRY_DELAY_SECONDS]"
    using retry_on_network_error_policy [of ?func ?a0 "''timed out''" ?a1
        "''connection reset''" ?a2 "(PStr ''U1'', PStr ''https://bucket/U1'')" ?a3 _ ?rq
        "Returned (PStr ''U1'', PStr ''https://bucket/U1'')"]
      frame fa fa3 by blast
  let ?b0 = "initial_world [] [] dead_net"
  let ?b1 = "snd (?body ?b0)"
  let ?b2 = "snd (?body (backoff 1 ''timed out'' ?b1))"
  let ?b3 = "snd (?body (backoff 2 ''connection reset'' ?b2))"
  have b1: "fst (?body ?b0) = Raised (RequestException ''timed out'')" by code_simp
  have b2: "fst (?body (backoff 1 ''timed out'' ?b1))
      = Raised (RequestException ''connection reset'')"
    by code_simp
  have b3: "fst (?body (backoff 2 ''connection reset'' ?b2))
      = Raised (RequestException ''no route'')"
    by code_simp
  have fb: "?func ?b0 = Some (Raised (RequestException ''timed out''), ?b1)
      \<and> ?func (backoff 1 ''timed out'' ?b1)
        = Some (Raised (RequestException ''connection reset''), ?b2)"
    using b1 b2 by (simp add: prod_eq_iff)
  have fb3: "?func (backoff 2 ''connection reset'' ?b2)
      = Some (Raised (RequestException ''no route''), ?b3)"
    using b3 by (simp add: prod_eq_iff)
  have dead: "retry_on_network_error ?func ?b0
        = Some (Raised (RequestException ''no route''), give_up ''no route'' ?b3)
      \<and> slept (give_up ''no route'' ?b3) = slept ?b3
      \<and> slept ?b3 = slept ?b0 @ [RETRY_DELAY_SECONDS, RETRY_DELAY_SECONDS]"
    using retry_on_network_error_policy [of ?func ?b0 "''timed out''" ?b1
        "''connection reset''" ?b2 _ ?b3 "''no route''" ?rq
        "Raised (RequestException ''no route'')"]
      frame fb fb3 by blast
  have s0: "slept ?a0 = []" "slept ?b0 = []" by (simp_all add: initial_world_def)
  show ?thesis
    using flaky dead s0
    by (simp add: create_upload_def RETRY_DELAY_SECONDS_def)
qed

section \<open>The concurrency gate: the ceiling of three uploads\<close>

lemma count_in_progress_list:
  "count_in_progress (PList uploads) w =
     (let n = length (filter counted_status uploads);
          w1 = snd (in_progress_loop uploads [] w)
      in
      if 3 \<le> n then
        (Exit 1,
         log_info [Lit ''Please wait for existing uploads to complete before starting a new one'']
           (log_error [Lit ''Currently '', Num (int n), Lit '' upload(s) in progress'']
             (log_error [Lit ''Maximum concurrent uploads ('', Num 3, Lit '') reached''] w1)))
      else
        (Returned (),
         log_success [Lit ''Concurrent uploads check passed ('', Num (int n), Lit ''/'', Num 3,
             Lit '')''] w1))"
proof -
  obtain ip w1 where l: "in_progress_loop uploads [] w = (ip, w1)"
    by (cases "in_progress_loop uploads [] w")
  have "ip = filter counted_status uploads"
    using in_progress_loop_filter [of uploads "[]" w] l by simp
  then show ?thesis
    using l
    by (simp add: count_in_progress_def Let_def MAX_CONCURRENT_UPLOADS_def EXIT_USER_ERROR_def)
qed

text \<open>
  Claim C4. Let the upload-list call return 200 with the list \<open>uploads\<close>, bare or under
  the \<^verbatim>\<open>content\<close> key of a mapping. The number the gate works with, and prints, is the
  number of entries of \<open>uploads\<close> that are mappings with a status among \<^verbatim>\<open>created\<close>,
  \<^verbatim>\<open>analysisInProgress\<close>, \<^verbatim>\<open>analysisCompleted\<close>, \<^verbatim>\<open>importRequested\<close> and
  \<^verbatim>\<open>importInProgress\<close>. When that number is 3 or more the gate ends the process as a user
  error (exit code 1); when it is 2 or less the gate returns and the run goes on.
\<close>

theorem check_concurrent_uploads_gate:
  assumes "net w (length (sent w)) = Response 200 listing"
    and "listing = PList uploads
      \<or> (\<exists>d. listing = PDict d \<and> map_of d ''content'' = Some (PList uploads))"
  shows "fst (check_concurrent_uploads source_id access_token w) =
      (if 3 \<le> length (filter counted_status uploads) then Exit 1 else Returned ())
    \<and> last (out (snd (check_concurrent_uploads source_id access_token w))) \<in>
        {(Info, [Lit ''Please wait for existing uploads to complete before starting a new one'']),
         (Success, [Lit ''Concurrent uploads check passed ('',
            Num (int (length (filter counted_status uploads))), Lit ''/'', Num 3, Lit '')''])}
    \<and> (3 \<le> length (filter counted_status uploads) \<longrightarrow>
         (Error, [Lit ''Currently '', Num (int (length (filter counted_status uploads))),
                  Lit '' upload(s) in progress''])
           \<in> set (out (snd (check_concurrent_uploads source_id access_token w))))"
  using assms
  by (auto simp add: check_concurrent_uploads_def send_def dict_get_def log_defs
      count_in_progress_list Let_def)

theorem check_concurrent_uploads_gate_witness:
  "fst (check_concurrent_uploads ''S3'' (PStr ''token'')
          (initial_world [] [] [Response 200 (PList busy_uploads)])) = Exit 1
   \<and> fst (check_concurrent_uploads ''S3'' (PStr ''token'')
          (initial_world [] [] [Response 200 (PDict [(''content'', PList (tl busy_uploads))])]))
       = Returned ()"
proof -
  have n3: "length (filter counted_status busy_uploads) = 3" by code_simp
  have n2: "length (filter counted_status (tl busy_uploads)) = 2" by code_simp
  show ?thesis
    using check_concurrent_uploads_gate
      [of "initial_world [] [] [Response 200 (PList busy_uploads)]" "PList busy_uploads"
        busy_uploads "''S3''" "PStr ''token''"]
      check_concurrent_uploads_gate
      [of "initial_world [] [] [Response 200 (PDict [(''content'', PList (tl busy_uploads))])]"
        "PDict [(''content'', PList (tl busy_uploads))]" "tl busy_uploads" "''S3''"
        "PStr ''token''"]
    by (simp add: n3 n2 initial_world_def script_def)
qed

section \<open>Remote source validation: a source that does not exist\<close>

text \<open>
  What the 404 branch of \<^verbatim>\<open>validate_source\<close> does when the listing call fails, returns
  a status other than 200, or returns a mapping whose \<^verbatim>\<open>content\<close> is missing or a list
  of mappings: it makes the two calls, displays the sources of type \<^verbatim>\<open>flatFile\<close> and no
  other (or the failure of the listing), and ends the process as a user error.
\<close>

lemma flat_file_filter_mappings:
  "list_all is_mapping sources \<Longrightarrow>
     flat_file_filter sources = Inr (filter flat_file_source sources)"
proof (induction sources)
  case Nil
  then show ?case by simp
next
  case (Cons s sources)
  then obtain d where s: "s = PDict d" by (cases s) (auto simp add: is_mapping_def)
  have "py_eq (dict_get d ''sourceSystem'' PNone) (PStr ''flatFile'') = flat_file_source s"
    by (auto simp add: s flat_file_source_def py_eq_PStr dict_get_def split: option.split)
  then show ?case using Cons by (simp add: s)
qed

lemma show_sources_mappings:
  "list_all is_mapping sources \<Longrightarrow>
     show_sources sources w = (None, w\<lparr>out := out w @ map source_line sources\<rparr>)"
proof (induction sources arbitrary: w)
  case Nil
  then show ?case by simp
next
  case (Cons s sources)
  then obtain d where s: "s = PDict d" by (cases s) (auto simp add: is_mapping_def)
  show ?case using Cons by (simp add: s source_line_def log_defs)
qed

lemma list_sources_handled:
  assumes "net w (length (sent w)) = listing" and "handled_listing listing sources"
  shows "list_sources access_token w =
      (Returned (),
       w\<lparr>sent := sent w @ [api_request ''GET'' [Lit ''/sources''] access_token NoBody],
         out := out w @ listing_lines listing sources\<rparr>)"
proof (cases listing)
  case (Failure e)
  then show ?thesis using assms by (simp add: list_sources_def send_def log_defs)
next
  case (Response status_code data)
  show ?thesis
  proof (cases "status_code = 200")
    case False
    then show ?thesis using assms Response by (simp add: list_sources_def send_def log_defs)
  next
    case True
    then obtain d where d: "data = PDict d"
      and c: "dict_get d ''content'' (PList []) = PList sources"
      and m: "list_all is_mapping sources"
      using assms(2) Response by (cases data) auto
    have fm: "list_all is_mapping (filter flat_file_source sources)"
      using m by (simp add: list_all_iff)
    show ?thesis
      using assms(1) Response True d c
      by (simp add: list_sources_def send_def flat_file_filter_mappings [OF m]
          show_sources_mappings [OF fm] log_defs)
  qed
qed

lemma validate_source_not_found:
  assumes "net w (length (sent w)) = Response 404 data"
    and "net w (Suc (length (sent w))) = listing"
    and "handled_listing listing sources"
  shows "validate_source source_id access_token w =
      (Exit 1,
       w\<lparr>sent := sent w @
           [api_request ''GET'' [Lit ''/sources/'', Lit source_id] access_token NoBody,
            api_request ''GET'' [Lit ''/sources''] access_token NoBody],
         out := out w @
           [(Progress, [Lit ''Validating source ID: '', Lit source_id, Lit ''...'']),
            (Error, [Lit ''Invalid source ID: '', Lit source_id]),
            (Info, [Lit ''Fetching available sources...''])]
           @ listing_lines listing sources\<rparr>)"
proof -
  let ?w1 = "log_info [Lit ''Fetching available sources...'']
      (log_error [Lit ''Invalid source ID: '', Lit source_id]
        (snd (send (api_request ''GET'' [Lit ''/sources/'', Lit source_id] access_token NoBody)
          (log_progress [Lit ''Validating source ID: '', Lit source_id, Lit ''...''] w))))"
  have n: "net ?w1 (length (sent ?w1)) = listing"
    using assms(2) by (simp add: send_def log_defs)
  show ?thesis
    using assms(1) list_sources_handled [OF n assms(3), of access_token]
    by (simp add: validate_source_def send_def log_defs EXIT_USER_ERROR_def)
qed

lemma validate_source_not_found_example:
  "fst (validate_source ''S2'' (PStr ''token'')
          (initial_world [] []
            [Response 404 PNone, Response 200 (PDict [(''content'', PList some_sources)])]))
     = Exit 1
   \<and> drop 3 (out (snd (validate_source ''S2'' (PStr ''token'')
          (initial_world [] []
            [Response 404 PNone, Response 200 (PDict [(''content'', PList some_sources)])]))))
     = [(Info, [Lit ''\<newline>Available flatFile sources:'']),
        (Info, [Lit ''ID: '', Val (PStr ''S1''), Lit '', Name: '', Val (PStr ''orders'')])]"
proof -
  let ?listing = "Response 200 (PDict [(''content'', PList some_sources)])"
  let ?w = "initial_world [] [] [Response 404 PNone, ?listing]"
  have n1: "net ?w (length (sent ?w)) = Response 404 PNone"
    by (simp add: initial_world_def script_def)
  have n2: "net ?w (Suc (length (sent ?w))) = ?listing"
    by (simp add: initial_world_def script_def)
  have h: "handled_listing ?listing some_sources" by code_simp
  have l: "listing_lines ?listing some_sources
      = [(Info, [Lit ''\<newline>Available flatFile sources:'']),
         (Info, [Lit ''ID: '', Val (PStr ''S1''), Lit '', Name: '', Val (PStr ''orders'')])]"
    by code_simp
  show ?thesis
    unfolding validate_source_not_found [OF n1 n2 h] l
    by (simp add: initial_world_def)
qed

text \<open>
  Claim C5 says that the validation ends as a user error (exit code 1) in every 404 case.
  When the listing call is answered with status 200 and a body that is not a mapping, here
  the bare list \<^verbatim>\<open>[]\<close>, \<^verbatim>\<open>sources_data.get\<close> raises an \<^verbatim>\<open>AttributeError\<close>; the
  handler of the listing only catches \<open>RequestException\<close>, so the exception leaves
  \<^verbatim>\<open>validate_source\<close> before its \<^verbatim>\<open>sys.exit(EXIT_USER_ERROR)\<close>, and \<^verbatim>\<open>main\<close> turns it
  into exit code 2.
\<close>

theorem validate_source_not_found_bare_list:
  "fst (validate_source ''S2'' (PStr ''token'') (initial_world [] [] bare_list_net))
     = Raised AttributeError
   \<and> map_option fst (main ''S2'' ''data.csv''
        (initial_world credentials [(''data.csv'', csv_file 10485760)]
          (token_reply # bare_list_net))) = Some 2"
  by code_simp

section \<open>Local file validation: the size ceiling\<close>

text \<open>
  Claim C6. For every file whose size exceeds 5 GiB (\<open>5 * 1024 ^ 3\<close> bytes),
  \<^verbatim>\<open>validate_file\<close> ends the process as a user error (exit code 1), whatever the rest of
  the world is; for every readable regular file whose size is at most 5 GiB the size check
  passes and \<^verbatim>\<open>validate_file\<close> returns the path and the size. No call is made to the
  network.
\<close>

theorem validate_file_size_limit:
  assumes "files w file_path = Some st"
  shows "(st_size st > 5 * 1024 ^ 3 \<longrightarrow> fst (validate_file file_path w) = Exit 1)
    \<and> (st_size st \<le> 5 * 1024 ^ 3 \<and> is_file st \<and> readable st \<longrightarrow>
         fst (validate_file file_path w) = Returned (file_path, st_size st))
    \<and> sent (snd (validate_file file_path w)) = sent w"
  using assms
  by (simp add: validate_file_def log_defs Let_def MAX_FILE_SIZE_BYTES_def MAX_FILE_SIZE_GB_def
      EXIT_USER_ERROR_def)

theorem validate_file_size_limit_witness:
  "fst (validate_file ''big.csv''
          (initial_world [] [(''big.csv'', csv_file 5368709121), (''ok.csv'', csv_file 5368709120)] []))
     = Exit 1
   \<and> fst (validate_file ''ok.csv''
          (initial_world [] [(''big.csv'', csv_file 5368709121), (''ok.csv'', csv_file 5368709120)] []))
     = Returned (''ok.csv'', 5368709120)"
  using validate_file_size_limit
    [of "initial_world [] [(''big.csv'', csv_file 5368709121), (''ok.csv'', csv_file 5368709120)] []"
      "''big.csv''" "csv_file 5368709121"]
    validate_file_size_limit
    [of "initial_world [] [(''big.csv'', csv_file 5368709121), (''ok.csv'', csv_file 5368709120)] []"
      "''ok.csv''" "csv_file 5368709120"]
  by (simp add: initial_world_def csv_file_def)

section \<open>Authentication: missing credentials\<close>

text \<open>
  Claim C7. Whenever at least one of the two credential variables is absent, empty or
  whitespace-only, \<^verbatim>\<open>get_access_token\<close> ends the process as a user error (exit code 1);
  the lines it prints are the heading, one line for each missing variable and for no other,
  and the closing advice; and it has made no call to the network.
\<close>

theorem get_access_token_missing_vars:
  assumes "blank_var w ''HARPIN_CLIENT_ID'' \<or> blank_var w ''HARPIN_REFRESH_TOKEN''"
  shows "get_access_token w =
      (Exit 1,
       w\<lparr>out := out w
          @ [(Error, [Lit ''Missing required environment variables:''])]
          @ map (\<lambda>var. (Error, [Lit ''  - '', Lit var]))
              (filter (blank_var w) [''HARPIN_CLIENT_ID'', ''HARPIN_REFRESH_TOKEN''])
          @ [(Error, [Lit ''\<newline>Please set these environment variables before running the script.''])]\<rparr>)
    \<and> sent (snd (get_access_token w)) = sent w"
  using assms
  by (auto simp add: get_access_token_def blank_var_strip log_defs Let_def EXIT_USER_ERROR_def)

theorem get_access_token_missing_vars_witness:
  "get_access_token (initial_world [(''HARPIN_CLIENT_ID'', ''client''),
       (''HARPIN_REFRESH_TOKEN'', ''  '')] [] []) =
     (Exit 1,
      initial_world [(''HARPIN_CLIENT_ID'', ''client''), (''HARPIN_REFRESH_TOKEN'', ''  '')] [] []
      \<lparr>out := [(Error, [Lit ''Missing required environment variables:'']),
               (Error, [Lit ''  - '', Lit ''HARPIN_REFRESH_TOKEN'']),
               (Error, [Lit ''\<newline>Please set these environment variables before running the script.''])]\<rparr>)"
  using get_access_token_missing_vars
    [of "initial_world [(''HARPIN_CLIENT_ID'', ''client''), (''HARPIN_REFRESH_TOKEN'', ''  '')] [] []"]
  by (simp add: initial_world_def blank_var_def py_isspace_def)

section \<open>Authentication: no retry of the token exchange\<close>

text \<open>
  Claim C8. With both credentials present, a transport exception raised by the token
  exchange ends the process at once: \<^verbatim>\<open>get_access_token\<close> exits (with code 1) having made
  that one call and without sleeping. In the same situation, the first call raising a
  transport exception, each of the four decorated operations \<^verbatim>\<open>create_upload\<close>,
  \<^verbatim>\<open>request_import\<close>, \<^verbatim>\<open>upload_to_s3\<close> (on a readable file) and \<^verbatim>\<open>poll_status\<close>
  (when polling ends) makes at least a second call.
\<close>

theorem get_access_token_no_retry:
  assumes "\<not> blank_var w ''HARPIN_CLIENT_ID''" and "\<not> blank_var w ''HARPIN_REFRESH_TOKEN''"
    and "net w (length (sent w)) = Failure e"
  shows "fst (get_access_token w) = Exit 1
    \<and> sent (snd (get_access_token w)) = sent w @
         [token_request (strip (environ_get w ''HARPIN_CLIENT_ID'' []))
            (strip (environ_get w ''HARPIN_REFRESH_TOKEN'' []))]
    \<and> slept (snd (get_access_token w)) = slept w
    \<and> (\<exists>r w'. create_upload source_id file_name access_token w = Some (r, w')
          \<and> length (sent w) + 2 \<le> length (sent w'))
    \<and> (\<exists>r w'. request_import source_id upload_id access_token w = Some (r, w')
          \<and> length (sent w) + 2 \<le> length (sent w'))
    \<and> (files w file_path = Some st \<and> is_file st \<and> readable st \<longrightarrow>
         (\<exists>r w'. upload_to_s3 presigned_url file_path file_size w = Some (r, w')
            \<and> length (sent w) + 2 \<le> length (sent w')))
    \<and> (\<forall>r w'. poll_status source_id upload_id access_token target_status phase_name w
            = Some (r, w') \<longrightarrow> length (sent w) + 2 \<le> length (sent w'))"
proof (intro conjI impI allI)
  show "fst (get_access_token w) = Exit 1"
    using assms
    by (simp add: get_access_token_def blank_var_strip log_defs Let_def EXIT_USER_ERROR_def
        send_def)
  show "sent (snd (get_access_token w)) = sent w @
         [token_request (strip (environ_get w ''HARPIN_CLIENT_ID'' []))
            (strip (environ_get w ''HARPIN_REFRESH_TOKEN'' []))]"
    using assms
    by (simp add: get_access_token_def blank_var_strip log_defs Let_def send_def)
  show "slept (snd (get_access_token w)) = slept w"
    using assms
    by (simp add: get_access_token_def blank_var_strip log_defs Let_def send_def)
next
  let ?f = "\<lambda>u. Some (create_upload_body source_id file_name access_token u)"
  obtain r w' where run: "retry_on_network_error ?f w = Some (r, w')"
    using retry_total [of ?f w] by auto
  have f1: "?f w = Some (Raised (RequestException e),
      snd (create_upload_body source_id file_name access_token w))"
    using assms(3) by (simp add: create_upload_body_def send_def log_defs)
  have "length (sent w) + 2 \<le> length (sent w')"
  proof (rule retry_second_call [OF f1 run])
    fix u r u'
    assume "?f u = Some (r, u')"
    then have "u' = snd (create_upload_body source_id file_name access_token u)" by auto
    then show "length (sent u) < length (sent u') \<and> files u' = files u"
      using create_upload_body_frame [of source_id file_name access_token u]
        create_upload_body_files [of source_id file_name access_token u] by simp
  qed
  then show "\<exists>r w'. create_upload source_id file_name access_token w = Some (r, w')
      \<and> length (sent w) + 2 \<le> length (sent w')"
    using run by (auto simp add: create_upload_def)
next
  let ?f = "\<lambda>u. Some (request_import_body source_id upload_id access_token u)"
  obtain r w' where run: "retry_on_network_error ?f w = Some (r, w')"
    using retry_total [of ?f w] by auto
  have f1: "?f w = Some (Raised (RequestException e),
      snd (request_import_body source_id upload_id access_token w))"
    using assms(3) by (simp add: request_import_body_def send_def log_defs)
  have "length (sent w) + 2 \<le> length (sent w')"
  proof (rule retry_second_call [OF f1 run])
    fix u r u'
    assume "?f u = Some (r, u')"
    then have "u' = snd (request_import_body source_id upload_id access_token u)" by auto
    then show "length (sent u) < length (sent u') \<and> files u' = files u"
      using request_import_body_frame [of source_id upload_id access_token u] by simp
  qed
  then show "\<exists>r w'. request_import source_id upload_id access_token w = Some (r, w')
      \<and> length (sent w) + 2 \<le> length (sent w')"
    using run by (auto simp add: request_import_def)
next
  assume fl: "files w file_path = Some st \<and> is_file st \<and> readable st"
  let ?f = "\<lambda>u. Some (upload_to_s3_body presigned_url file_path file_size u)"
  obtain r w' where run: "retry_on_network_error ?f w = Some (r, w')"
    using retry_total [of ?f w] by auto
  have f1: "?f w = Some (Raised (RequestException e),
      snd (upload_to_s3_body presigned_url file_path file_size w))"
    using assms(3) fl by (simp add: upload_to_s3_body_def send_def log_defs Let_def)
  have "length (sent w) + 2 \<le> length (sent w')"
  proof (rule retry_second_call [OF f1 run])
    fix u r u'
    assume same: "files u = files w" and "?f u = Some (r, u')"
    then have "u' = snd (upload_to_s3_body presigned_url file_path file_size u)" by auto
    then show "length (sent u) < length (sent u') \<and> files u' = files u"
      using upload_to_s3_body_frame [of u file_path st presigned_url file_size] fl same
      by simp
  qed
  then show "\<exists>r w'. upload_to_s3 presigned_url file_path file_size w = Some (r, w')
      \<and> length (sent w) + 2 \<le> length (sent w')"
    using run by (auto simp add: upload_to_s3_def)
next
  fix r w'
  assume run: "poll_status source_id upload_id access_token target_status phase_name w
      = Some (r, w')"
  let ?f = "poll_status_body source_id upload_id access_token target_status phase_name"
  have f1: "?f w = Some (Raised (RequestException e),
      (log_progress [Lit ''Waiting for '', Lit phase_name, Lit ''...''] w)
        \<lparr>sent := sent w @ [status_request source_id upload_id access_token]\<rparr>)"
    using assms(3)
    apply (simp add: poll_status_body_def)
    apply (subst poll_loop.simps)
    apply (simp add: send_def log_defs)
    done
  show "length (sent w) + 2 \<le> length (sent w')"
  proof (rule retry_second_call [OF f1 run [unfolded poll_status_def]])
    fix u r u'
    assume "?f u = Some (r, u')"
    then show "length (sent u) < length (sent u') \<and> files u' = files u"
      using poll_loop_grows [of source_id upload_id access_token target_status phase_name PNone
          "log_progress [Lit ''Waiting for '', Lit phase_name, Lit ''...''] u" "(r, u')"]
      by (simp add: poll_status_body_def log_defs)
  qed
qed

theorem get_access_token_no_retry_witness:
  "fst (get_access_token (initial_world credentials [] [Failure ''timed out''])) = Exit 1
   \<and> length (sent (snd (get_access_token
        (initial_world credentials [] [Failure ''timed out''])))) = 1
   \<and> slept (snd (get_access_token (initial_world credentials [] [Failure ''timed out'']))) = []"
proof -
  let ?w = "initial_world credentials [] [Failure ''timed out'']"
  have c: "\<not> blank_var ?w ''HARPIN_CLIENT_ID''" "\<not> blank_var ?w ''HARPIN_REFRESH_TOKEN''"
    by code_simp+
  have n: "net ?w (length (sent ?w)) = Failure ''timed out''" by code_simp
  have s: "sent ?w = []" "slept ?w = []" by (simp_all add: initial_world_def)
  show ?thesis
    using get_access_token_no_retry [OF c n] s by simp
qed

section \<open>Properties of the size formatter\<close>

lemma format_file_size_cases:
  "format_file_size n =
     (if n < 1024 then (real_of_int n, ''B'')
      else if n < 1024 ^ 2 then (real_of_int n / 1024, ''KB'')
      else if n < 1024 ^ 3 then (real_of_int n / 1024 ^ 2, ''MB'')
      else if n < 1024 ^ 4 then (real_of_int n / 1024 ^ 3, ''GB'')
      else (real_of_int n / 1024 ^ 4, ''TB''))"
proof -
  have r: "\<And>k::int. (real_of_int n < real_of_int k) = (n < k)" by simp
  have a: "(real_of_int n < 1024) = (n < 1024)" using r [of 1024] by simp
  have b: "(real_of_int n / 1024 < 1024) = (n < 1024 ^ 2)"
    using r [of "1024 ^ 2"] by (simp add: field_simps)
  have c: "(real_of_int n / 1024 / 1024 < 1024) = (n < 1024 ^ 3)"
    using r [of "1024 ^ 3"] by (simp add: field_simps)
  have d: "(real_of_int n / 1024 / 1024 / 1024 < 1024) = (n < 1024 ^ 4)"
    using r [of "1024 ^ 4"] by (simp add: field_simps)
  show ?thesis
    unfolding format_file_size_def format_loop.simps a b c d by simp
qed

lemma unit_rank_simps:
  "unit_rank ''B'' = 0" "unit_rank ''KB'' = 1" "unit_rank ''MB'' = 2"
  "unit_rank ''GB'' = 3" "unit_rank ''TB'' = 4"
  by (simp_all add: unit_rank_def size_units_def)

text \<open>
  Claim C9. For every byte size \<open>n \<ge> 0\<close> the unit of \<open>format_file_size n\<close> is one of
  B, KB, MB, GB, TB; the number shown is \<open>n\<close> divided by 1024 as many times as the unit's
  rank says; the division stopped as soon as the number fell below 1024 (so the number is
  below 1024 unless the unit is TB, and the previous quotient was at least 1024 unless the
  unit is B); and the rank of the unit never decreases when the size grows from \<open>m\<close> to
  \<open>n\<close>.
\<close>

theorem format_file_size_units:
  assumes "0 \<le> m" and "m \<le> n"
  shows "snd (format_file_size n) \<in> set size_units
    \<and> fst (format_file_size n) = real_of_int n / 1024 ^ unit_rank (snd (format_file_size n))
    \<and> (snd (format_file_size n) \<noteq> ''TB'' \<longrightarrow> fst (format_file_size n) < 1024)
    \<and> (snd (format_file_size n) \<noteq> ''B'' \<longrightarrow>
         1024 \<le> real_of_int n / 1024 ^ (unit_rank (snd (format_file_size n)) - 1))
    \<and> unit_rank (snd (format_file_size m)) \<le> unit_rank (snd (format_file_size n))"
proof -
  have u: "snd (format_file_size n) \<in> set size_units"
    by (simp add: format_file_size_cases size_units_def)
  have r: "\<And>k::int. (real_of_int n < real_of_int k) = (n < k)" by simp
  have v: "fst (format_file_size n)
      = real_of_int n / 1024 ^ unit_rank (snd (format_file_size n))"
    by (simp add: format_file_size_cases unit_rank_simps)
  have lt: "snd (format_file_size n) \<noteq> ''TB'' \<longrightarrow> fst (format_file_size n) < 1024"
    using r [of 1024] r [of "1024 ^ 2"] r [of "1024 ^ 3"] r [of "1024 ^ 4"]
    by (simp add: format_file_size_cases field_simps)
  have ge: "snd (format_file_size n) \<noteq> ''B'' \<longrightarrow>
      1024 \<le> real_of_int n / 1024 ^ (unit_rank (snd (format_file_size n)) - 1)"
    using r [of 1024] r [of "1024 ^ 2"] r [of "1024 ^ 3"] r [of "1024 ^ 4"]
    by (simp add: format_file_size_cases unit_rank_simps field_simps not_less)
  have mono: "unit_rank (snd (format_file_size m)) \<le> unit_rank (snd (format_file_size n))"
    using assms by (simp add: format_file_size_cases unit_rank_simps)
  show ?thesis using u v lt ge mono by blast
qed

theorem format_file_size_units_witness:
  "(0::int) \<le> 1536 \<and> (1536::int) \<le> 5368709120
    \<and> format_file_size 1536 = (3 / 2, ''KB'')
    \<and> format_file_size 5368709120 = (5, ''GB'')
    \<and> unit_rank ''KB'' \<le> unit_rank ''GB''"
  using format_file_size_units [of 1536 5368709120]
  by (simp add: format_file_size_cases unit_rank_simps)

section \<open>The concurrency gate: a mapping without content\<close>

text \<open>
  Claim C10. When the upload-list call returns 200 with a mapping that has no
  \<^verbatim>\<open>content\<close> key, \<^verbatim>\<open>check_concurrent_uploads\<close> takes the list of uploads to be empty:
  it reports 0 uploads in progress out of 3 and returns, so the run goes on; it is not a
  system error.
\<close>

theorem check_concurrent_uploads_no_content:
  assumes "net w (length (sent w)) = Response 200 (PDict d)"
    and "map_of d ''content'' = None"
  shows "check_concurrent_uploads source_id access_token w =
      (Returned (),
       log_success [Lit ''Concurrent uploads check passed ('', Num 0, Lit ''/'', Num 3, Lit '')'']
         (snd (send (api_request ''GET'' [Lit ''/sources/'', Lit source_id, Lit ''/uploads'']
                   access_token NoBody)
             (log_progress [Lit ''Checking concurrent uploads...''] w))))"
  using assms
  by (simp add: check_concurrent_uploads_def send_def dict_get_def count_in_progress_def
      MAX_CONCURRENT_UPLOADS_def log_defs)

theorem check_concurrent_uploads_no_content_witness:
  "fst (check_concurrent_uploads ''S1'' (PStr ''token'')
          (initial_world [] [] [Response 200 (PDict [(''totalElements'', PInt 0)])]))
     = Returned ()"
  using check_concurrent_uploads_no_content
    [of "initial_world [] [] [Response 200 (PDict [(''totalElements'', PInt 0)])]"
      "[(''totalElements'', PInt 0)]" "''S1''" "PStr ''token''"]
  by (simp add: initial_world_def script_def)

end
